theory Spec2Isabelle
  imports Main "HOL-Library.Multiset"
begin

section \<open>The mock D-Bus service queue of libglib-testing\<close>

text \<open>
  The theory embeds \<^verbatim>\<open>GtDBusQueue\<close> (dbus-queue.h and dbus-queue.c). Every function
  of the C file that a property below talks about is a HOL function of the same name,
  taking the pointee of \<^verbatim>\<open>self\<close> (so \<^verbatim>\<open>self != NULL\<close> holds by typing) and
  returning an outcome together with the updated queue.

  GLib itself is not part of the library. Its functions are modelled by their documented
  behaviour where that is a few lines (the asynchronous queue, the object path syntax)
  and taken as parameters otherwise (connection set-up results, message printing,
  variant parsing, D-Bus name validation).
\<close>

subsection \<open>Values\<close>

text \<open>A \<^verbatim>\<open>GVariant\<close>: the kinds of value the mock interfaces exchange.
  \<^verbatim>\<open>g_variant_equal\<close> is equality of type and value, here HOL equality.\<close>

datatype GVariant =
    GVUInt32 nat
  | GVString string
  | GVObjectPath string
  | GVTuple "GVariant list"

text \<open>A \<^verbatim>\<open>GDBusMethodInvocation\<close> with the \<^verbatim>\<open>GDBusMessage\<close> it wraps: what the
  accessors \<^verbatim>\<open>g_dbus_method_invocation_get_*\<close> and \<^verbatim>\<open>g_dbus_message_get_serial\<close>
  read.\<close>

record GDBusMethodInvocation =
  inv_serial :: nat
  inv_sender :: string
  inv_object_path :: string
  inv_interface_name :: string
  inv_method_name :: string
  inv_parameters :: GVariant

record GDBusConnection =
  unique_name :: string

type_synonym GError = string

type_synonym gpointer = nat

text \<open>A \<^verbatim>\<open>GtDBusQueueServerFunc\<close> is a function pointer: the address of the callback.\<close>

type_synonym GtDBusQueueServerFunc = nat

subsection \<open>GAsyncQueue\<close>

text \<open>
  The items are kept head first: \<^verbatim>\<open>g_async_queue_push\<close> adds at the tail and
  \<^verbatim>\<open>g_async_queue_try_pop\<close> takes from the head. Each operation runs under the
  queue's own mutex, so operations of different threads take effect one after the other.
  \<^verbatim>\<open>g_async_queue_length\<close> is the number of items minus the number of threads blocked
  in \<^verbatim>\<open>g_async_queue_pop\<close>, and can be negative.
\<close>

record GAsyncQueue =
  items :: "GDBusMethodInvocation list"
  waiting_threads :: nat

definition g_async_queue_new_full :: GAsyncQueue where
  "g_async_queue_new_full = \<lparr>items = [], waiting_threads = 0\<rparr>"

definition g_async_queue_push :: "GAsyncQueue \<Rightarrow> GDBusMethodInvocation \<Rightarrow> GAsyncQueue" where
  "g_async_queue_push q m = q\<lparr>items := items q @ [m]\<rparr>"

definition g_async_queue_try_pop ::
  "GAsyncQueue \<Rightarrow> GDBusMethodInvocation option \<times> GAsyncQueue" where
  "g_async_queue_try_pop q =
     (case items q of
        [] \<Rightarrow> (None, q)
      | m # rest \<Rightarrow> (Some m, q\<lparr>items := rest\<rparr>))"

definition g_async_queue_length :: "GAsyncQueue \<Rightarrow> int" where
  "g_async_queue_length q = int (length (items q)) - int (waiting_threads q)"

text \<open>The \<^verbatim>\<open>_unlocked\<close> variants do the same to the queue; the caller holds the
  queue's mutex (\<^verbatim>\<open>g_async_queue_lock\<close>) around them.\<close>

definition g_async_queue_push_unlocked ::
  "GAsyncQueue \<Rightarrow> GDBusMethodInvocation \<Rightarrow> GAsyncQueue" where
  "g_async_queue_push_unlocked q m = q\<lparr>items := items q @ [m]\<rparr>"

definition g_async_queue_try_pop_unlocked ::
  "GAsyncQueue \<Rightarrow> GDBusMethodInvocation option \<times> GAsyncQueue" where
  "g_async_queue_try_pop_unlocked q =
     (case items q of
        [] \<Rightarrow> (None, q)
      | m # rest \<Rightarrow> (Some m, q\<lparr>items := rest\<rparr>))"

subsection \<open>The queue object\<close>

datatype GMainContext = ServerContext | ClientContext

text \<open>Calls into GLib and GIO that act on the outside world, in the order made.\<close>

datatype event =
    TestDBusUp
  | TestDBusDown
  | ConnectionAddFilter nat
  | ConnectionRemoveFilter nat
  | ConnectionCloseSync GDBusConnection
  | ConnectionUnregisterObject nat
  | BusUnownName nat
  | MutexLock
  | MutexUnlock
  | AsyncQueueLock
  | AsyncQueueUnlock
  | AtomicSetQuitting
  | MainContextWakeup GMainContext
  | ThreadNew string
  | ThreadJoin string

text \<open>
  \<^verbatim>\<open>struct _GtDBusQueue\<close>. A nullable pointer is an option. The private bus and the
  two main contexts are created once in \<^verbatim>\<open>gt_dbus_queue_new\<close> and never replaced;
  they appear only as the targets of events. \<^verbatim>\<open>trace\<close> is not a field of the struct:
  it records the external calls made so far.
\<close>

record GtDBusQueue =
  server_thread :: "string option"
  server_filter_id :: nat
  server_func :: "GtDBusQueueServerFunc option"
  server_func_data :: gpointer
  quitting :: bool
  server_connection :: "GDBusConnection option"
  name_ids :: "nat list"
  object_ids :: "nat list"
  server_message_queue :: GAsyncQueue
  client_connection :: "GDBusConnection option"
  trace :: "event list"

text \<open>
  How a call ends.
  \<^item> \<open>Returns v q\<close>: it returns \<open>v\<close> and leaves the queue as \<open>q\<close>.
  \<^item> \<open>CheckFailed v\<close>: a \<^verbatim>\<open>g_return_if_fail\<close> or \<^verbatim>\<open>g_return_val_if_fail\<close>
    precondition check at the top of the function failed. GLib logs a CRITICAL message
    and the function returns \<open>v\<close> at once, the queue untouched; where CRITICAL
    messages have been made fatal the process dies in the log call instead (see \<open>seen\<close>
    below).
  \<^item> \<open>Aborts a\<close>: the process is aborted, by \<^verbatim>\<open>g_assert_not_reached\<close>, by
    \<^verbatim>\<open>g_assert\<close> (with the text of the expression), by \<^verbatim>\<open>g_assertion_message\<close>
    (with its message), by \<^verbatim>\<open>g_variant_new_parsed\<close> on a text that does not parse,
    by passing \<^verbatim>\<open>NULL\<close> to \<^verbatim>\<open>strcmp\<close>, or by a CRITICAL message that is fatal.
  A function that can wait forever returns an option of this, \<open>None\<close> for never returning.
\<close>

datatype abort =
    AssertNotReached
  | AssertFailed string
  | AssertionMessage string
  | ParseError string
  | NullDereference
  | FatalCritical

datatype 'a outcome =
    Returns 'a GtDBusQueue
  | CheckFailed 'a
  | Aborts abort

text \<open>
  What the caller of a function sees when the function, called on \<open>self\<close>, ends with the
  given outcome. \<open>fatal_criticals\<close> is the setting of the process: whether
  \<^verbatim>\<open>G_LOG_LEVEL_CRITICAL\<close> is in GLib's always-fatal mask. It is not by default;
  \<^verbatim>\<open>g_test_init\<close> and \<^verbatim>\<open>G_DEBUG=fatal-criticals\<close> put it there.
\<close>

definition seen :: "bool \<Rightarrow> GtDBusQueue \<Rightarrow> 'a outcome \<Rightarrow> 'a outcome" where
  "seen fatal_criticals self r =
     (case r of
        CheckFailed v \<Rightarrow> if fatal_criticals then Aborts FatalCritical else Returns v self
      | Returns v self' \<Rightarrow> Returns v self'
      | Aborts a \<Rightarrow> Aborts a)"

definition gt_dbus_queue_new :: GtDBusQueue where
  "gt_dbus_queue_new =
     \<lparr>server_thread = None,
      server_filter_id = 0,
      server_func = None,
      server_func_data = 0,
      quitting = False,
      server_connection = None,
      name_ids = [],
      object_ids = [],
      server_message_queue = g_async_queue_new_full,
      client_connection = None,
      trace = []\<rparr>"

text \<open>
  \<^verbatim>\<open>gt_dbus_queue_connect\<close>. \<open>new_client\<close> and \<open>new_server\<close> are what the two calls
  of \<^verbatim>\<open>g_dbus_connection_new_for_address_sync\<close> give, \<open>filter_id\<close> what
  \<^verbatim>\<open>g_dbus_connection_add_filter\<close> gives. \<open>error\<close> is the \<^verbatim>\<open>GError **\<close>
  argument: \<open>None\<close> for \<^verbatim>\<open>NULL\<close>, \<open>Some e\<close> for a location holding \<open>e\<close>. The result
  carries the error stored through it; through \<^verbatim>\<open>NULL\<close> nothing is stored.
\<close>

definition gt_dbus_queue_connect ::
  "GError + GDBusConnection \<Rightarrow> GError + GDBusConnection \<Rightarrow> nat \<Rightarrow>
   GtDBusQueue \<Rightarrow> GError option option \<Rightarrow> (bool \<times> GError option) outcome" where
  "gt_dbus_queue_connect new_client new_server filter_id self error =
     (if server_thread self \<noteq> None then CheckFailed (False, None)
      else if \<not> (error = None \<or> error = Some None) then CheckFailed (False, None)
      else
        let s1 = self\<lparr>trace := trace self @ [TestDBusUp]\<rparr> in
        (case new_client of
           Inl e \<Rightarrow>
             Returns (False, if error = None then None else Some e)
               (s1\<lparr>client_connection := None\<rparr>)
         | Inr c \<Rightarrow>
             let s2 = s1\<lparr>client_connection := Some c\<rparr> in
             (case new_server of
                Inl e \<Rightarrow>
                  Returns (False, if error = None then None else Some e)
                    (s2\<lparr>server_connection := None\<rparr>)
              | Inr sc \<Rightarrow>
                  Returns (True, None)
                    (s2\<lparr>server_connection := Some sc,
                        server_filter_id := filter_id,
                        server_thread := Some ''GtDBusQueue server'',
                        trace := trace s2 @
                          [ConnectionAddFilter filter_id,
                           ThreadNew ''GtDBusQueue server'']\<rparr>))))"

subsection \<open>Receiving and popping messages\<close>

text \<open>\<^verbatim>\<open>gt_dbus_queue_method_call\<close>: the vtable entry run in the server thread for each
  incoming call. \<^verbatim>\<open>g_debug\<close> output is not modelled, here and below.\<close>

definition gt_dbus_queue_method_call ::
  "GtDBusQueue \<Rightarrow> GDBusMethodInvocation \<Rightarrow> GtDBusQueue" where
  "gt_dbus_queue_method_call self invocation =
     self\<lparr>server_message_queue :=
            g_async_queue_push (server_message_queue self) invocation,
          trace := trace self @
            [MainContextWakeup ClientContext, MainContextWakeup ServerContext]\<rparr>"

definition gt_dbus_queue_get_n_messages :: "GtDBusQueue \<Rightarrow> nat" where
  "gt_dbus_queue_get_n_messages self =
     (let n_messages = g_async_queue_length (server_message_queue self)
      in nat (max n_messages 0))"

text \<open>
  The loop of \<^verbatim>\<open>gt_dbus_queue_pop_message_internal\<close>:
  \<^verbatim>\<open>while (wait && (invocation = g_async_queue_try_pop (...)) == NULL)
    g_main_context_iteration (g_main_context_get_thread_default (), TRUE);\<close>
  The first argument is what the rest of the process does while the caller sits in
  successive main context iterations: the calls that \<^verbatim>\<open>gt_dbus_queue_method_call\<close>
  receives during the first iteration, during the second, and so on. When the list is
  used up nothing arrives any more and a further iteration never comes back: \<open>None\<close>.
  The result is the final value of \<^verbatim>\<open>invocation\<close>, the queue, and the iterations
  not used. With \<^verbatim>\<open>wait\<close> false the condition is false before
  \<^verbatim>\<open>g_async_queue_try_pop\<close> is reached.
\<close>

fun pop_message_loop ::
  "bool \<Rightarrow> GDBusMethodInvocation list list \<Rightarrow> GtDBusQueue \<Rightarrow>
   (GDBusMethodInvocation option \<times> GtDBusQueue \<times> GDBusMethodInvocation list list) option" where
  "pop_message_loop wait [] self =
     (if wait then
        (case g_async_queue_try_pop (server_message_queue self) of
           (Some m, q) \<Rightarrow> Some (Some m, self\<lparr>server_message_queue := q\<rparr>, [])
         | (None, q) \<Rightarrow> None)
      else Some (None, self, []))"
| "pop_message_loop wait (arrivals # later) self =
     (if wait then
        (case g_async_queue_try_pop (server_message_queue self) of
           (Some m, q) \<Rightarrow> Some (Some m, self\<lparr>server_message_queue := q\<rparr>, arrivals # later)
         | (None, q) \<Rightarrow>
             pop_message_loop wait later
               (foldl gt_dbus_queue_method_call (self\<lparr>server_message_queue := q\<rparr>) arrivals))
      else Some (None, self, arrivals # later))"

text \<open>\<open>out_invocation\<close> tells whether the caller passed a location; the second
  component of the value is what is stored there.\<close>

definition gt_dbus_queue_pop_message_internal ::
  "GDBusMethodInvocation list list \<Rightarrow> GtDBusQueue \<Rightarrow> bool \<Rightarrow> bool \<Rightarrow>
   ((bool \<times> GDBusMethodInvocation option) outcome \<times> GDBusMethodInvocation list list) option" where
  "gt_dbus_queue_pop_message_internal sched self wait out_invocation =
     (if server_thread self = None then Some (CheckFailed (False, None), sched)
      else
        (case pop_message_loop wait sched self of
           None \<Rightarrow> None
         | Some (invocation, self', rest) \<Rightarrow>
             let message_popped = (invocation \<noteq> None) in
             Some (Returns (message_popped, if out_invocation then invocation else None) self',
                   rest)))"

definition gt_dbus_queue_try_pop_message ::
  "GDBusMethodInvocation list list \<Rightarrow> GtDBusQueue \<Rightarrow> bool \<Rightarrow>
   ((bool \<times> GDBusMethodInvocation option) outcome \<times> GDBusMethodInvocation list list) option" where
  "gt_dbus_queue_try_pop_message sched self out_invocation =
     gt_dbus_queue_pop_message_internal sched self False out_invocation"

definition gt_dbus_queue_pop_message ::
  "GDBusMethodInvocation list list \<Rightarrow> GtDBusQueue \<Rightarrow> bool \<Rightarrow>
   ((bool \<times> GDBusMethodInvocation option) outcome \<times> GDBusMethodInvocation list list) option" where
  "gt_dbus_queue_pop_message sched self out_invocation =
     gt_dbus_queue_pop_message_internal sched self True out_invocation"

subsection \<open>Formatting the pending messages\<close>

text \<open>The GLib functions the library only calls: how a message prints
  (\<^verbatim>\<open>g_dbus_message_print\<close>, with its indent), which texts parse as a
  \<^verbatim>\<open>GVariant\<close> and to what (\<^verbatim>\<open>g_variant_new_parsed\<close>; \<open>None\<close> for a text that
  does not parse), and which strings are interface and member names.\<close>

record glib =
  g_dbus_message_print :: "GDBusMethodInvocation \<Rightarrow> nat \<Rightarrow> string"
  g_variant_new_parsed :: "string \<Rightarrow> GVariant option"
  g_dbus_is_interface_name :: "string \<Rightarrow> bool"
  g_dbus_is_member_name :: "string \<Rightarrow> bool"

definition gt_dbus_queue_format_message :: "glib \<Rightarrow> GDBusMethodInvocation \<Rightarrow> string" where
  "gt_dbus_queue_format_message G invocation = g_dbus_message_print G invocation 0"

text \<open>The first loop of \<^verbatim>\<open>gt_dbus_queue_format_messages\<close>: pop from the head until
  the queue is empty, appending each message's text to \<open>output\<close> and the message to
  \<open>local_queue\<close>.\<close>

function format_messages_drain ::
  "glib \<Rightarrow> GAsyncQueue \<Rightarrow> string \<Rightarrow> GDBusMethodInvocation list \<Rightarrow>
   GAsyncQueue \<times> string \<times> GDBusMethodInvocation list" where
  "format_messages_drain G q output local_queue =
     (case g_async_queue_try_pop_unlocked q of
        (None, q') \<Rightarrow> (q', output, local_queue)
      | (Some message, q') \<Rightarrow>
          format_messages_drain G q'
            (output @ gt_dbus_queue_format_message G message) (local_queue @ [message]))"
  by pat_completeness auto
termination
  by (relation "measure (\<lambda>(G, q, output, local_queue). length (items q))")
     (auto simp: g_async_queue_try_pop_unlocked_def split: list.splits)

text \<open>The second loop: \<^verbatim>\<open>for (i = 0; i < local_queue->len; i++)\<close>, pushing element
  \<open>i\<close> back.\<close>

function format_messages_reassemble ::
  "nat \<Rightarrow> GDBusMethodInvocation list \<Rightarrow> GAsyncQueue \<Rightarrow> GAsyncQueue" where
  "format_messages_reassemble i local_queue q =
     (if i < length local_queue
      then format_messages_reassemble (i + 1) local_queue
             (g_async_queue_push_unlocked q (local_queue ! i))
      else q)"
  by pat_completeness auto
termination
  by (relation "measure (\<lambda>(i, local_queue, q). length local_queue - i)") auto

definition gt_dbus_queue_format_messages :: "glib \<Rightarrow> GtDBusQueue \<Rightarrow> string \<times> GtDBusQueue" where
  "gt_dbus_queue_format_messages G self =
     (let s1 = self\<lparr>trace := trace self @ [AsyncQueueLock]\<rparr>;
          (q1, output, local_queue) =
             format_messages_drain G (server_message_queue s1) [] [];
          q2 = format_messages_reassemble 0 local_queue q1;
          s2 = s1\<lparr>server_message_queue := q2\<rparr>;
          s3 = s2\<lparr>trace := trace s2 @ [AsyncQueueUnlock]\<rparr>
      in (output, s3))"

text \<open>\<^verbatim>\<open>%\<close> \<^verbatim>\<open>G_GSIZE_FORMAT\<close>: a size in decimal.\<close>

fun format_gsize :: "nat \<Rightarrow> string" where
  "format_gsize n =
     (if n < 10 then [char_of (48 + n)]
      else format_gsize (n div 10) @ [char_of (48 + n mod 10)])"

text \<open>The macro \<^verbatim>\<open>gt_dbus_queue_assert_no_messages\<close> of dbus-queue.h.\<close>

definition gt_dbus_queue_assert_no_messages :: "glib \<Rightarrow> GtDBusQueue \<Rightarrow> unit outcome" where
  "gt_dbus_queue_assert_no_messages G self =
     (if gt_dbus_queue_get_n_messages self > 0 then
        (let (anm_list, s1) = gt_dbus_queue_format_messages G self;
             anm_message =
               ''Expected no messages, but saw '' @
               format_gsize (gt_dbus_queue_get_n_messages s1) @ [CHR '':'', CHR 0x0A] @
               anm_list
         in Aborts (AssertionMessage anm_message))
      else Returns () self)"

subsection \<open>Disconnecting\<close>

definition log :: "event \<Rightarrow> GtDBusQueue \<Rightarrow> GtDBusQueue" where
  "log e self = self\<lparr>trace := trace self @ [e]\<rparr>"

text \<open>The two loops of \<^verbatim>\<open>gt_dbus_queue_disconnect\<close> over the owned IDs, in array
  order.\<close>

fun disconnect_unown_names :: "nat list \<Rightarrow> GtDBusQueue \<Rightarrow> GtDBusQueue" where
  "disconnect_unown_names [] self = self"
| "disconnect_unown_names (i # ids) self =
     disconnect_unown_names ids (log (BusUnownName i) self)"

fun disconnect_unregister_objects :: "nat list \<Rightarrow> GtDBusQueue \<Rightarrow> GtDBusQueue" where
  "disconnect_unregister_objects [] self = self"
| "disconnect_unregister_objects (i # ids) self =
     disconnect_unregister_objects ids (log (ConnectionUnregisterObject i) self)"

text \<open>
  \<^verbatim>\<open>gt_dbus_queue_disconnect\<close>. \<open>thread_exits\<close> tells whether the server thread ever
  leaves its thread function once told to quit; \<^verbatim>\<open>g_thread_join\<close> waits for that.
\<close>

definition gt_dbus_queue_disconnect ::
  "glib \<Rightarrow> bool \<Rightarrow> GtDBusQueue \<Rightarrow> bool \<Rightarrow> unit outcome option" where
  "gt_dbus_queue_disconnect G thread_exits self assert_queue_empty =
     (case server_thread self of
        None \<Rightarrow> Some (CheckFailed ())
      | Some thread \<Rightarrow>
          (case (if assert_queue_empty then gt_dbus_queue_assert_no_messages G self
                 else Returns () self) of
             Aborts a \<Rightarrow> Some (Aborts a)
           | CheckFailed u \<Rightarrow> Some (CheckFailed u)
           | Returns u s0 \<Rightarrow>
               let s1 = (case client_connection s0 of
                           Some c \<Rightarrow> log (ConnectionCloseSync c) s0
                         | None \<Rightarrow> s0);
                   s2 = s1\<lparr>client_connection := None\<rparr>;
                   s3 = log MutexLock s2;
                   s4 = disconnect_unown_names (name_ids s3) s3;
                   s5 = s4\<lparr>name_ids := []\<rparr>;
                   s6 = disconnect_unregister_objects (object_ids s5) s5;
                   s7 = s6\<lparr>object_ids := []\<rparr>;
                   s8 = log MutexUnlock s7;
                   s9 = (if server_filter_id s8 \<noteq> 0
                         then (log (ConnectionRemoveFilter (server_filter_id s8)) s8)
                                \<lparr>server_filter_id := 0\<rparr>
                         else s8);
                   s10 = (case server_connection s9 of
                            Some c \<Rightarrow> log (ConnectionCloseSync c) s9
                          | None \<Rightarrow> s9);
                   s11 = s10\<lparr>server_connection := None\<rparr>;
                   s12 = log TestDBusDown s11;
                   s13 = (log AtomicSetQuitting s12)\<lparr>quitting := True\<rparr>;
                   s14 = log (MainContextWakeup ServerContext) s13;
                   s15 = log (ThreadJoin thread) s14
               in if thread_exits then Some (Returns () (s15\<lparr>server_thread := None\<rparr>))
                  else None))"

text \<open>The events of a trace that happen while the queue's \<^verbatim>\<open>lock\<close> is held.\<close>

fun under_lock :: "bool \<Rightarrow> event list \<Rightarrow> event list" where
  "under_lock held [] = []"
| "under_lock held (MutexLock # es) = under_lock True es"
| "under_lock held (MutexUnlock # es) = under_lock False es"
| "under_lock held (e # es) = (if held then e # under_lock held es else under_lock held es)"

subsection \<open>Names and objects\<close>

text \<open>\<^verbatim>\<open>g_array_remove_index_fast\<close>: the last element takes the place of the
  removed one. An index out of range fails GLib's own check and leaves the array alone.\<close>

definition g_array_remove_index_fast :: "nat list \<Rightarrow> nat \<Rightarrow> nat list" where
  "g_array_remove_index_fast array index =
     (if index < length array then butlast (array[index := last array]) else array)"

text \<open>The search \<^verbatim>\<open>for (i = 0; i < name_ids->len; i++) if (found_id == id)\<close>:
  the first index, counted from \<open>i\<close>, that holds the ID.\<close>

fun find_id :: "nat \<Rightarrow> nat list \<Rightarrow> nat \<Rightarrow> nat option" where
  "find_id ident [] i = None"
| "find_id ident (found_id # rest) i =
     (if found_id = ident then Some i else find_id ident rest (i + 1))"

definition gt_dbus_queue_unown_name :: "GtDBusQueue \<Rightarrow> nat \<Rightarrow> unit outcome" where
  "gt_dbus_queue_unown_name self ident =
     (if server_thread self = None then CheckFailed ()
      else if ident = 0 then CheckFailed ()
      else
        let s1 = log MutexLock self in
        (case find_id ident (name_ids s1) 0 of
           Some i \<Rightarrow>
             let s2 = s1\<lparr>name_ids := g_array_remove_index_fast (name_ids s1) i\<rparr>;
                 s3 = log MutexUnlock s2;
                 s4 = log (BusUnownName ident) s3
             in Returns () s4
         | None \<Rightarrow> Aborts AssertNotReached))"

text \<open>D-Bus object path syntax, as \<^verbatim>\<open>g_variant_is_object_path\<close> checks it: a leading
  slash; then letters, digits, underscores and slashes; no two slashes in a row; no
  trailing slash except for the root path.\<close>

definition g_ascii_isalnum :: "char \<Rightarrow> bool" where
  "g_ascii_isalnum c =
     (let n = (of_char c :: nat)
      in (48 \<le> n \<and> n \<le> 57) \<or> (65 \<le> n \<and> n \<le> 90) \<or> (97 \<le> n \<and> n \<le> 122))"

fun object_path_rest :: "char \<Rightarrow> string \<Rightarrow> bool" where
  "object_path_rest prev [] = True"
| "object_path_rest prev (c # cs) =
     (if g_ascii_isalnum c \<or> c = CHR ''_'' then object_path_rest c cs
      else if c = CHR ''/'' then (if prev = CHR ''/'' then False else object_path_rest c cs)
      else False)"

definition g_variant_is_object_path :: "string \<Rightarrow> bool" where
  "g_variant_is_object_path string =
     (case string of
        [] \<Rightarrow> False
      | c # cs \<Rightarrow>
          c = CHR ''/'' \<and> object_path_rest c cs \<and> \<not> (cs \<noteq> [] \<and> last cs = CHR ''/''))"

type_synonym GDBusInterfaceInfo = string

text \<open>
  \<^verbatim>\<open>gt_dbus_queue_export_object\<close>. \<open>registered\<close> is what \<^verbatim>\<open>export_object_cb\<close>, run
  in the server thread, leaves in \<^verbatim>\<open>data.id\<close> and \<^verbatim>\<open>data.error\<close>: the result of
  \<^verbatim>\<open>g_dbus_connection_register_object\<close>. The caller waits on the condition until one
  of the two is set. \<open>object_path\<close> and \<open>interface_info\<close> are nullable pointers,
  \<open>error\<close> is as in \<open>gt_dbus_queue_connect\<close>. The value is the ID returned and the error
  stored through \<open>error\<close>.
\<close>

definition gt_dbus_queue_export_object ::
  "nat \<times> GError option \<Rightarrow> GtDBusQueue \<Rightarrow> string option \<Rightarrow> GDBusInterfaceInfo option \<Rightarrow>
   GError option option \<Rightarrow> (nat \<times> GError option) outcome option" where
  "gt_dbus_queue_export_object registered self object_path interface_info error =
     (if server_thread self = None then Some (CheckFailed (0, None))
      else if \<not> (object_path \<noteq> None \<and> g_variant_is_object_path (the object_path))
        then Some (CheckFailed (0, None))
      else if interface_info = None then Some (CheckFailed (0, None))
      else if \<not> (error = None \<or> error = Some None) then Some (CheckFailed (0, None))
      else
        (case registered of
           (data_id, data_error) \<Rightarrow>
             if data_id = 0 \<and> data_error = None then None
             else
               (case data_error of
                  Some local_error \<Rightarrow>
                    Some (Returns (0, if error = None then None else Some local_error) self)
                | None \<Rightarrow>
                    if data_id = 0 then Some (Aborts (AssertFailed ''id != 0''))
                    else
                      let s1 = log MutexLock self;
                          s2 = s1\<lparr>object_ids := object_ids s1 @ [data_id]\<rparr>;
                          s3 = log MutexUnlock s2
                      in Some (Returns (data_id, None) s3))))"

subsection \<open>The server function and the server thread\<close>

definition g_atomic_pointer_compare_and_exchange ::
  "'a option \<Rightarrow> 'a option \<Rightarrow> 'a option \<Rightarrow> bool \<times> 'a option" where
  "g_atomic_pointer_compare_and_exchange atomic oldval newval =
     (if atomic = oldval then (True, newval) else (False, atomic))"

text \<open>\<^verbatim>\<open>gt_dbus_queue_set_server_func\<close>; \<open>func\<close> is a nullable function pointer.\<close>

definition gt_dbus_queue_set_server_func ::
  "GtDBusQueue \<Rightarrow> GtDBusQueueServerFunc option \<Rightarrow> gpointer \<Rightarrow> unit outcome" where
  "gt_dbus_queue_set_server_func self func user_data =
     (if func = None then CheckFailed ()
      else
        let s1 = self\<lparr>server_func_data := user_data\<rparr>;
            (swapped, slot) = g_atomic_pointer_compare_and_exchange (server_func s1) None func;
            s2 = s1\<lparr>server_func := slot\<rparr>
        in if \<not> swapped then Aborts (AssertFailed ''swapped'')
           else Returns () (log (MainContextWakeup ServerContext) s2))"

text \<open>
  What can happen to the queue object while the server thread is inside one
  \<^verbatim>\<open>g_main_context_iteration (server_context, TRUE)\<close>: the constructing thread sets
  the server function, some thread stores the quitting flag, an incoming call is
  dispatched to \<^verbatim>\<open>gt_dbus_queue_method_call\<close>, or the context is only woken up.
\<close>

datatype server_step =
    SetServerFunc GtDBusQueueServerFunc gpointer
  | SetQuitting
  | MethodCall GDBusMethodInvocation
  | Wakeup

fun during_iteration :: "server_step \<Rightarrow> GtDBusQueue \<Rightarrow> unit outcome" where
  "during_iteration (SetServerFunc func user_data) self =
     gt_dbus_queue_set_server_func self (Some func) user_data"
| "during_iteration SetQuitting self = Returns () (self\<lparr>quitting := True\<rparr>)"
| "during_iteration (MethodCall invocation) self =
     Returns () (gt_dbus_queue_method_call self invocation)"
| "during_iteration Wakeup self = Returns () self"

text \<open>A loop \<^verbatim>\<open>while (cond) g_main_context_iteration (self->server_context, TRUE);\<close>
  of the server thread. When the steps are used up and the condition still holds, the
  thread sleeps in the iteration for ever.\<close>

fun server_iterate ::
  "(GtDBusQueue \<Rightarrow> bool) \<Rightarrow> server_step list \<Rightarrow> GtDBusQueue \<Rightarrow>
   (unit outcome \<times> server_step list) option" where
  "server_iterate cond [] self = (if cond self then None else Some (Returns () self, []))"
| "server_iterate cond (step # later) self =
     (if cond self then
        (case during_iteration step self of
           Returns u self' \<Rightarrow> server_iterate cond later self'
         | CheckFailed u \<Rightarrow> server_iterate cond later self
         | Aborts a \<Rightarrow> Some (Aborts a, later))
      else Some (Returns () self, step # later))"

text \<open>The last loop, \<^verbatim>\<open>while (g_main_context_iteration (self->server_context, FALSE));\<close>:
  the sources that are ready are dispatched, without blocking.\<close>

fun server_drain :: "server_step list \<Rightarrow> GtDBusQueue \<Rightarrow> unit outcome" where
  "server_drain [] self = Returns () self"
| "server_drain (step # later) self =
     (case during_iteration step self of
        Returns u self' \<Rightarrow> server_drain later self'
      | CheckFailed u \<Rightarrow> server_drain later self
      | Aborts a \<Rightarrow> Aborts a)"

text \<open>
  \<^verbatim>\<open>gt_dbus_queue_server_thread_cb\<close>, the function of the thread that
  \<^verbatim>\<open>gt_dbus_queue_connect\<close> starts. \<open>run\<close> is the code behind a server function
  pointer: what the call \<^verbatim>\<open>server_func (self, server_func_data)\<close> does to the queue,
  \<open>None\<close> if it never returns. \<open>sched\<close> are the blocking iterations, \<open>ready\<close> the sources
  ready when the thread quits. The result lists the calls of the server function made,
  with their arguments, and how the thread ends.
\<close>

definition gt_dbus_queue_server_thread_cb ::
  "(GtDBusQueueServerFunc \<Rightarrow> gpointer \<Rightarrow> GtDBusQueue \<Rightarrow> GtDBusQueue option) \<Rightarrow>
   server_step list \<Rightarrow> server_step list \<Rightarrow> GtDBusQueue \<Rightarrow>
   ((GtDBusQueueServerFunc \<times> gpointer) list \<times> unit outcome) option" where
  "gt_dbus_queue_server_thread_cb run sched ready self =
     (case server_iterate (\<lambda>s. \<not> quitting s \<and> server_func s = None) sched self of
        None \<Rightarrow> None
      | Some (Aborts a, rest) \<Rightarrow> Some ([], Aborts a)
      | Some (CheckFailed u, rest) \<Rightarrow> Some ([], CheckFailed u)
      | Some (Returns u s1, rest) \<Rightarrow>
          let func = server_func s1;
              func_data = server_func_data s1 in
          (case (case func of
                   None \<Rightarrow> Some ([], s1)
                 | Some f \<Rightarrow>
                     (case run f func_data s1 of
                        None \<Rightarrow> None
                      | Some s' \<Rightarrow> Some ([(f, func_data)], s'))) of
             None \<Rightarrow> None
           | Some (calls, s2) \<Rightarrow>
               (case server_iterate (\<lambda>s. \<not> quitting s) rest s2 of
                  None \<Rightarrow> None
                | Some (Aborts a, rest') \<Rightarrow> Some (calls, Aborts a)
                | Some (CheckFailed u, rest') \<Rightarrow> Some (calls, CheckFailed u)
                | Some (Returns u s3, rest') \<Rightarrow> Some (calls, server_drain ready s3))))"

subsection \<open>Matching and asserting on popped messages\<close>

text \<open>\<^verbatim>\<open>gt_dbus_queue_match_client_message\<close>; \<open>expected_parameters_string\<close> is
  nullable. With no client connection, \<^verbatim>\<open>g_dbus_connection_get_unique_name\<close> gives
  \<^verbatim>\<open>NULL\<close>, which \<^verbatim>\<open>g_str_equal\<close> hands to \<^verbatim>\<open>strcmp\<close>.\<close>

definition gt_dbus_queue_match_client_message ::
  "glib \<Rightarrow> GtDBusQueue \<Rightarrow> GDBusMethodInvocation \<Rightarrow> string \<Rightarrow> string \<Rightarrow> string \<Rightarrow>
   string option \<Rightarrow> bool outcome" where
  "gt_dbus_queue_match_client_message G self invocation expected_object_path
       expected_interface_name expected_method_name expected_parameters_string =
     (if \<not> g_variant_is_object_path expected_object_path then CheckFailed False
      else if \<not> g_dbus_is_interface_name G expected_interface_name then CheckFailed False
      else if \<not> g_dbus_is_member_name G expected_method_name then CheckFailed False
      else
        (case (case expected_parameters_string of
                 None \<Rightarrow> Inr None
               | Some text \<Rightarrow>
                   (case g_variant_new_parsed G text of
                      None \<Rightarrow> Inl (ParseError text)
                    | Some v \<Rightarrow> Inr (Some v))) of
           Inl a \<Rightarrow> Aborts a
         | Inr expected_parameters \<Rightarrow>
             (case client_connection self of
                None \<Rightarrow> Aborts NullDereference
              | Some connection \<Rightarrow>
                  Returns
                    (inv_sender invocation = unique_name connection \<and>
                     inv_object_path invocation = expected_object_path \<and>
                     inv_interface_name invocation = expected_interface_name \<and>
                     inv_method_name invocation = expected_method_name \<and>
                     (expected_parameters = None \<or>
                      inv_parameters invocation = the expected_parameters))
                    self)))"

definition saw_no_messages :: "string \<Rightarrow> string \<Rightarrow> string \<Rightarrow> string" where
  "saw_no_messages expected_object_path expected_interface_name expected_method_name =
     ''Expected message '' @ expected_interface_name @ ''.'' @ expected_method_name @
     '' from '' @ expected_object_path @ '', but saw no messages''"

definition saw_other :: "string \<Rightarrow> string \<Rightarrow> string \<Rightarrow> string \<Rightarrow> string" where
  "saw_other expected_object_path expected_interface_name expected_method_name
       invocation_formatted =
     ''Expected message '' @ expected_interface_name @ ''.'' @ expected_method_name @
     '' from '' @ expected_object_path @ '', but saw: '' @ invocation_formatted"

text \<open>
  \<^verbatim>\<open>gt_dbus_queue_assert_pop_message_impl\<close>. \<open>macro_file\<close>, \<open>macro_function\<close> and
  \<open>parameters_format\<close> are nullable strings. The log domain, file, line and function
  only label the assertion message, and the extraction of the parameters into the
  caller's variadic return locations (\<^verbatim>\<open>g_variant_get_va\<close>) does not touch the queue;
  neither is modelled.
\<close>

definition gt_dbus_queue_assert_pop_message_impl ::
  "glib \<Rightarrow> GDBusMethodInvocation list list \<Rightarrow> GtDBusQueue \<Rightarrow> string option \<Rightarrow> int \<Rightarrow>
   string option \<Rightarrow> string \<Rightarrow> string \<Rightarrow> string \<Rightarrow> string option \<Rightarrow>
   (GDBusMethodInvocation option outcome \<times> GDBusMethodInvocation list list) option" where
  "gt_dbus_queue_assert_pop_message_impl G sched self macro_file macro_line macro_function
       expected_object_path expected_interface_name expected_method_name parameters_format =
     (if macro_file = None \<or> \<not> macro_line \<ge> 0 \<or> macro_function = None
         \<or> \<not> g_variant_is_object_path expected_object_path
         \<or> \<not> g_dbus_is_interface_name G expected_interface_name
         \<or> \<not> g_dbus_is_member_name G expected_method_name
         \<or> parameters_format = None
      then Some (CheckFailed None, sched)
      else
        (case gt_dbus_queue_pop_message sched self True of
           None \<Rightarrow> None
         | Some (popped, rest) \<Rightarrow>
             (case popped of
                Aborts a \<Rightarrow> Some (Aborts a, rest)
              | CheckFailed (message_popped, invocation) \<Rightarrow>
                  Some (Aborts (AssertionMessage
                          (saw_no_messages expected_object_path expected_interface_name
                             expected_method_name)), rest)
              | Returns (message_popped, invocation) s1 \<Rightarrow>
                  if \<not> message_popped then
                    Some (Aborts (AssertionMessage
                            (saw_no_messages expected_object_path expected_interface_name
                               expected_method_name)), rest)
                  else
                    (case invocation of
                       None \<Rightarrow>
                         Some (Aborts (AssertionMessage
                                 (saw_other expected_object_path expected_interface_name
                                    expected_method_name ''(null)'')), rest)
                     | Some m \<Rightarrow>
                         (case gt_dbus_queue_match_client_message G s1 m
                                 expected_object_path expected_interface_name
                                 expected_method_name None of
                            Aborts a \<Rightarrow> Some (Aborts a, rest)
                          | Returns True s2 \<Rightarrow> Some (Returns (Some m) s2, rest)
                          | _ \<Rightarrow>
                              Some (Aborts (AssertionMessage
                                      (saw_other expected_object_path
                                         expected_interface_name expected_method_name
                                         (gt_dbus_queue_format_message G m))), rest))))))"

subsection \<open>A test fixture\<close>

text \<open>The queue of the library's own test (tests/dbus-queue.c) once connected, a GLib
  for which every string is a valid name and a message prints as its member name, and
  the two calls the test's client makes.\<close>

definition fixture_queue :: GtDBusQueue where
  "fixture_queue =
     (case gt_dbus_queue_connect (Inr \<lparr>unique_name = '':1.0''\<rparr>)
             (Inr \<lparr>unique_name = '':1.1''\<rparr>) 1 gt_dbus_queue_new None of
        Returns r q \<Rightarrow> q
      | _ \<Rightarrow> gt_dbus_queue_new)"

definition fixture_glib :: glib where
  "fixture_glib =
     \<lparr>g_dbus_message_print = (\<lambda>m indent. inv_method_name m),
      g_variant_new_parsed = (\<lambda>text. if text = ''(123,)'' then Some (GVTuple [GVUInt32 123])
                                      else None),
      g_dbus_is_interface_name = (\<lambda>s. True),
      g_dbus_is_member_name = (\<lambda>s. True)\<rparr>"

definition call_get_object_path :: GDBusMethodInvocation where
  "call_get_object_path =
     \<lparr>inv_serial = 1, inv_sender = '':1.0'', inv_object_path = ''/com/example/Test'',
      inv_interface_name = ''com.example.Test.Manager'', inv_method_name = ''GetObjectPath'',
      inv_parameters = GVTuple [GVUInt32 123]\<rparr>"

definition call_get_all :: GDBusMethodInvocation where
  "call_get_all =
     \<lparr>inv_serial = 2, inv_sender = '':1.0'', inv_object_path = ''/com/example/Test/Object123'',
      inv_interface_name = ''org.freedesktop.DBus.Properties'', inv_method_name = ''GetAll'',
      inv_parameters = GVTuple [GVString ''com.example.Test.Object'']\<rparr>"

text \<open>The fixture owning name 7 and exporting object 9, and the same after
  \<^verbatim>\<open>gt_dbus_queue_disconnect\<close>.\<close>

definition owner_queue :: GtDBusQueue where
  "owner_queue = fixture_queue\<lparr>name_ids := [7], object_ids := [9]\<rparr>"

definition owner_queue_disconnected :: GtDBusQueue where
  "owner_queue_disconnected =
     \<lparr>server_thread = None,
      server_filter_id = 0,
      server_func = None,
      server_func_data = 0,
      quitting = True,
      server_connection = None,
      name_ids = [],
      object_ids = [],
      server_message_queue = \<lparr>items = [], waiting_threads = 0\<rparr>,
      client_connection = None,
      trace =
        [TestDBusUp, ConnectionAddFilter 1, ThreadNew ''GtDBusQueue server'',
         ConnectionCloseSync \<lparr>unique_name = '':1.0''\<rparr>,
         MutexLock,
         BusUnownName 7,
         ConnectionUnregisterObject 9,
         MutexUnlock,
         ConnectionRemoveFilter 1,
         ConnectionCloseSync \<lparr>unique_name = '':1.1''\<rparr>,
         TestDBusDown,
         AtomicSetQuitting,
         MainContextWakeup ServerContext,
         ThreadJoin ''GtDBusQueue server'']\<rparr>"

text \<open>The fixture owning three names.\<close>

definition names_queue :: GtDBusQueue where
  "names_queue = fixture_queue\<lparr>name_ids := [3, 5, 8]\<rparr>"

text \<open>A server function that returns at once.\<close>

definition returns_at_once ::
  "GtDBusQueueServerFunc \<Rightarrow> gpointer \<Rightarrow> GtDBusQueue \<Rightarrow> GtDBusQueue option" where
  "returns_at_once func user_data self = Some self"

text \<open>The invocations that \<open>n\<close> successive calls of the blocking
  \<^verbatim>\<open>gt_dbus_queue_pop_message\<close> store in their \<^verbatim>\<open>out_invocation\<close>; \<open>None\<close> if one of
  the calls does not return \<^verbatim>\<open>TRUE\<close> with an invocation.\<close>

fun pop_messages ::
  "nat \<Rightarrow> GDBusMethodInvocation list list \<Rightarrow> GtDBusQueue \<Rightarrow>
   GDBusMethodInvocation list option" where
  "pop_messages 0 sched self = Some []"
| "pop_messages (Suc n) sched self =
     (case gt_dbus_queue_pop_message sched self True of
        Some (Returns (True, Some m) self', rest) \<Rightarrow>
          (case pop_messages n rest self' of
             None \<Rightarrow> None
           | Some ms \<Rightarrow> Some (m # ms))
      | _ \<Rightarrow> None)"

section \<open>Properties\<close>

declare format_messages_drain.simps [simp del]
declare format_messages_reassemble.simps [simp del]
declare format_gsize.simps [simp del]

subsection \<open>The fixture\<close>

lemma fixture_queue_eq:
  "fixture_queue =
     \<lparr>server_thread = Some ''GtDBusQueue server'',
      server_filter_id = 1,
      server_func = None,
      server_func_data = 0,
      quitting = False,
      server_connection = Some \<lparr>unique_name = '':1.1''\<rparr>,
      name_ids = [],
      object_ids = [],
      server_message_queue = \<lparr>items = [], waiting_threads = 0\<rparr>,
      client_connection = Some \<lparr>unique_name = '':1.0''\<rparr>,
      trace = [TestDBusUp, ConnectionAddFilter 1, ThreadNew ''GtDBusQueue server'']\<rparr>"
  by (simp add: fixture_queue_def gt_dbus_queue_connect_def gt_dbus_queue_new_def
      g_async_queue_new_full_def Let_def)

subsection \<open>Popping\<close>

lemma pop_message_loop_no_wait: "pop_message_loop False sched self = Some (None, self, sched)"
  by (cases sched) simp_all

text \<open>
  C4. On an empty message queue \<^verbatim>\<open>gt_dbus_queue_try_pop_message\<close> comes back at once
  (it does not wait, whatever the rest of the process does), returns \<^verbatim>\<open>FALSE\<close> and
  stores no invocation, and leaves the queue object as it was, so that
  \<^verbatim>\<open>gt_dbus_queue_get_n_messages\<close> is 0 afterwards. In every state the result of
  \<^verbatim>\<open>gt_dbus_queue_get_n_messages\<close> is the queue length clamped from below at 0.
\<close>

theorem try_pop_message_empty:
  assumes "items (server_message_queue self) = []"
  shows "gt_dbus_queue_try_pop_message sched self out_invocation =
           Some (if server_thread self = None then CheckFailed (False, None)
                 else Returns (False, None) self, sched)
         \<and> gt_dbus_queue_get_n_messages self = 0
         \<and> int (gt_dbus_queue_get_n_messages other) =
             max (g_async_queue_length (server_message_queue other)) 0
         \<and> 0 \<le> int (gt_dbus_queue_get_n_messages other)"
  using assms
  by (simp add: gt_dbus_queue_try_pop_message_def gt_dbus_queue_pop_message_internal_def
      pop_message_loop_no_wait gt_dbus_queue_get_n_messages_def g_async_queue_length_def)

theorem try_pop_message_empty_witness:
  "items (server_message_queue fixture_queue) = []
   \<and> gt_dbus_queue_try_pop_message [[call_get_object_path]] fixture_queue True =
       Some (Returns (False, None) fixture_queue, [[call_get_object_path]])
   \<and> gt_dbus_queue_get_n_messages fixture_queue = 0"
proof -
  have e: "items (server_message_queue fixture_queue) = []"
    by (simp add: fixture_queue_eq)
  have t: "server_thread fixture_queue \<noteq> None"
    by (simp add: fixture_queue_eq)
  show ?thesis
    using try_pop_message_empty [OF e, of "[[call_get_object_path]]" True fixture_queue] e t
    by simp
qed

subsection \<open>Formatting\<close>

lemma format_messages_drain_eq:
  "format_messages_drain G q out local_queue =
     (q\<lparr>items := []\<rparr>,
      out @ concat (map (gt_dbus_queue_format_message G) (items q)),
      local_queue @ items q)"
proof (induction "items q" arbitrary: q out local_queue)
  case Nil
  then have "items q = []" by simp
  then show ?case
    by (subst format_messages_drain.simps) (simp add: g_async_queue_try_pop_unlocked_def)
next
  case (Cons m rest)
  from Cons.hyps(2) have q: "items q = m # rest" by simp
  have "rest = items (q\<lparr>items := rest\<rparr>)" by simp
  from Cons.hyps(1) [OF this] q show ?case
    by (subst format_messages_drain.simps) (simp add: g_async_queue_try_pop_unlocked_def)
qed

lemma format_messages_reassemble_eq:
  "i \<le> length local_queue \<Longrightarrow>
   format_messages_reassemble i local_queue q = q\<lparr>items := items q @ drop i local_queue\<rparr>"
proof (induction i local_queue q rule: format_messages_reassemble.induct)
  case (1 i local_queue q)
  show ?case
  proof (cases "i < length local_queue")
    case True
    then have "drop i local_queue = local_queue ! i # drop (Suc i) local_queue"
      by (simp add: Cons_nth_drop_Suc)
    with True "1.IH" show ?thesis
      by (subst format_messages_reassemble.simps) (simp add: g_async_queue_push_unlocked_def)
  next
    case False
    with "1.prems" show ?thesis
      by (subst format_messages_reassemble.simps) simp
  qed
qed

lemma format_messages_eq:
  "gt_dbus_queue_format_messages G self =
     (concat (map (gt_dbus_queue_format_message G) (items (server_message_queue self))),
      self\<lparr>trace := trace self @ [AsyncQueueLock, AsyncQueueUnlock]\<rparr>)"
  by (simp add: gt_dbus_queue_format_messages_def format_messages_drain_eq
      format_messages_reassemble_eq Let_def)

text \<open>
  C2. In every state \<^verbatim>\<open>gt_dbus_queue_format_messages\<close> returns the texts of the pending
  messages, head of the queue first, and leaves the message queue as it was: the same
  messages in the same order. Nothing else of the queue object changes either; the call
  takes the message queue's lock once and releases it once, with the draining and the
  pushing back in between.
\<close>

theorem format_messages_preserves_queue:
  "server_message_queue (snd (gt_dbus_queue_format_messages G self)) =
     server_message_queue self
   \<and> snd (gt_dbus_queue_format_messages G self) =
       self\<lparr>trace := trace self @ [AsyncQueueLock, AsyncQueueUnlock]\<rparr>
   \<and> fst (gt_dbus_queue_format_messages G self) =
       concat (map (gt_dbus_queue_format_message G) (items (server_message_queue self)))"
  by (simp add: format_messages_eq)

subsection \<open>Popping in arrival order\<close>

lemma items_method_calls:
  "items (server_message_queue (foldl gt_dbus_queue_method_call self arrivals)) =
     items (server_message_queue self) @ arrivals"
  by (induction arrivals arbitrary: self)
     (simp_all add: gt_dbus_queue_method_call_def g_async_queue_push_def)

lemma server_thread_method_calls:
  "server_thread (foldl gt_dbus_queue_method_call self arrivals) = server_thread self"
  by (induction arrivals arbitrary: self) (simp_all add: gt_dbus_queue_method_call_def)

lemma pop_message_loop_fifo:
  "pop_message_loop True sched self = Some (r, self', rest) \<Longrightarrow>
   \<exists>m. r = Some m \<and>
       m # items (server_message_queue self') @ concat rest =
         items (server_message_queue self) @ concat sched"
proof (induction sched arbitrary: self)
  case Nil
  then show ?case
    by (auto simp: g_async_queue_try_pop_def split: list.splits)
next
  case (Cons arrivals later)
  show ?case
  proof (cases "items (server_message_queue self)")
    case Nil
    with Cons.prems have
      "pop_message_loop True later
         (foldl gt_dbus_queue_method_call
            (self\<lparr>server_message_queue := server_message_queue self\<rparr>) arrivals) =
       Some (r, self', rest)"
      by (simp add: g_async_queue_try_pop_def)
    from Cons.IH [OF this] Nil show ?thesis
      by (simp add: items_method_calls)
  next
    case (Cons m ms)
    with Cons.prems show ?thesis
      by (auto simp: g_async_queue_try_pop_def)
  qed
qed

lemma pop_message_loop_returns:
  "items (server_message_queue self) @ concat sched \<noteq> [] \<Longrightarrow>
   pop_message_loop True sched self \<noteq> None"
proof (induction sched arbitrary: self)
  case Nil
  then show ?case
    by (auto simp: g_async_queue_try_pop_def split: list.splits)
next
  case (Cons arrivals later)
  show ?case
  proof (cases "items (server_message_queue self)")
    case Nil
    with Cons.prems have
      "items (server_message_queue (foldl gt_dbus_queue_method_call
            (self\<lparr>server_message_queue := server_message_queue self\<rparr>) arrivals))
         @ concat later \<noteq> []"
      by (simp add: items_method_calls)
    from Cons.IH [OF this] Nil show ?thesis
      by (simp add: g_async_queue_try_pop_def)
  next
    case (Cons m ms)
    then show ?thesis
      by (simp add: g_async_queue_try_pop_def)
  qed
qed

lemma saw_other_neq_saw_no_messages: "saw_other p i m f \<noteq> saw_no_messages p i m"
  by (simp add: saw_other_def saw_no_messages_def)

lemma pop_message_returns_popped:
  assumes "server_thread self \<noteq> None"
    and "gt_dbus_queue_pop_message sched self out_invocation = Some (r, rest)"
  shows "\<exists>m self'. r = Returns (True, if out_invocation then Some m else None) self'
           \<and> m # items (server_message_queue self') @ concat rest =
               items (server_message_queue self) @ concat sched"
proof -
  from assms obtain inv self' where
    l: "pop_message_loop True sched self = Some (inv, self', rest)"
    and r: "r = Returns (inv \<noteq> None, if out_invocation then inv else None) self'"
    by (auto simp: gt_dbus_queue_pop_message_def gt_dbus_queue_pop_message_internal_def
        Let_def split: option.splits)
  from pop_message_loop_fifo [OF l] r show ?thesis by auto
qed


lemma try_pop_message_eq:
  "gt_dbus_queue_try_pop_message sched self out_invocation =
     Some (if server_thread self = None then CheckFailed (False, None)
           else Returns (False, None) self, sched)"
  by (simp add: gt_dbus_queue_try_pop_message_def gt_dbus_queue_pop_message_internal_def
      pop_message_loop_no_wait)

text \<open>The blocking pop returns the messages in arrival order: with \<open>n\<close> messages
  queued or still to arrive, \<open>n\<close> successive calls return the first \<open>n\<close> of them, in
  the order in which \<^verbatim>\<open>gt_dbus_queue_method_call\<close> received them.\<close>

lemma pop_message_loop_server_thread:
  "pop_message_loop wait sched self = Some (r, self', rest) \<Longrightarrow>
   server_thread self' = server_thread self"
proof (induction sched arbitrary: self)
  case Nil
  then show ?case
    by (auto simp: g_async_queue_try_pop_def split: if_splits list.splits)
next
  case (Cons arrivals later)
  show ?case
  proof (cases "wait \<and> items (server_message_queue self) = []")
    case True
    with Cons.prems have
      "pop_message_loop wait later
         (foldl gt_dbus_queue_method_call
            (self\<lparr>server_message_queue := server_message_queue self\<rparr>) arrivals) =
       Some (r, self', rest)"
      by (simp add: g_async_queue_try_pop_def)
    from Cons.IH [OF this] show ?thesis
      by (simp add: server_thread_method_calls)
  next
    case False
    with Cons.prems show ?thesis
      by (auto simp: g_async_queue_try_pop_def split: if_splits list.splits)
  qed
qed

lemma pop_message_returns:
  assumes "server_thread self \<noteq> None"
    and "items (server_message_queue self) @ concat sched \<noteq> []"
  shows "\<exists>m self' rest.
           gt_dbus_queue_pop_message sched self True = Some (Returns (True, Some m) self', rest)
         \<and> m # items (server_message_queue self') @ concat rest =
             items (server_message_queue self) @ concat sched
         \<and> server_thread self' \<noteq> None"
proof -
  from pop_message_loop_returns [OF assms(2)] obtain r self' rest where
    l: "pop_message_loop True sched self = Some (r, self', rest)"
    by (cases "pop_message_loop True sched self") auto
  from pop_message_loop_fifo [OF l] obtain m where
    m: "r = Some m"
      "m # items (server_message_queue self') @ concat rest =
         items (server_message_queue self) @ concat sched"
    by blast
  from pop_message_loop_server_thread [OF l] assms(1) have "server_thread self' \<noteq> None"
    by simp
  with assms(1) l m show ?thesis
    by (simp add: gt_dbus_queue_pop_message_def gt_dbus_queue_pop_message_internal_def)
qed

lemma pop_messages_fifo:
  assumes "server_thread self \<noteq> None"
    and "n \<le> length (items (server_message_queue self) @ concat sched)"
  shows "pop_messages n sched self =
           Some (take n (items (server_message_queue self) @ concat sched))"
  using assms
proof (induction n arbitrary: sched self)
  case 0
  then show ?case by simp
next
  case (Suc n)
  from Suc.prems(2) have "0 < length (items (server_message_queue self) @ concat sched)"
    by linarith
  then have ne: "items (server_message_queue self) @ concat sched \<noteq> []"
    by (metis length_greater_0_conv)
  from pop_message_returns [OF Suc.prems(1) ne] obtain m self' rest where
    p: "gt_dbus_queue_pop_message sched self True = Some (Returns (True, Some m) self', rest)"
    and e: "m # items (server_message_queue self') @ concat rest =
             items (server_message_queue self) @ concat sched"
    and t: "server_thread self' \<noteq> None"
    by blast
  from e Suc.prems(2) have "n \<le> length (items (server_message_queue self') @ concat rest)"
    by (metis Suc_le_mono length_Cons)
  from Suc.IH [OF t this] have
    "pop_messages n rest self' = Some (take n (items (server_message_queue self') @ concat rest))" .
  with p e [symmetric] show ?case
    by simp
qed

lemma pop_messages_example:
  "pop_messages 2 [[call_get_object_path], [], [call_get_all]] fixture_queue =
     Some [call_get_object_path, call_get_all]"
proof -
  have "server_thread fixture_queue \<noteq> None"
    by (simp add: fixture_queue_eq)
  from pop_messages_fifo [OF this, of 2 "[[call_get_object_path], [], [call_get_all]]"]
  show ?thesis
    by (simp add: fixture_queue_eq)
qed

text \<open>
  C1. Messages are to come out in arrival order from the blocking and from the
  non-blocking pop alike. The blocking pop does that (\<open>pop_messages_fifo\<close>). The
  non-blocking pop does not: \<^verbatim>\<open>wait && (invocation = g_async_queue_try_pop (...)) == NULL\<close>
  is false at \<^verbatim>\<open>wait\<close>, so the queue is never read. With one message delivered to the
  connected fixture, \<^verbatim>\<open>gt_dbus_queue_get_n_messages\<close> is 1 and
  \<^verbatim>\<open>gt_dbus_queue_try_pop_message\<close> still returns \<^verbatim>\<open>FALSE\<close>, stores no invocation
  and leaves the message queued.
\<close>

theorem try_pop_message_never_pops:
  "gt_dbus_queue_get_n_messages
     (gt_dbus_queue_method_call fixture_queue call_get_object_path) = 1
   \<and> gt_dbus_queue_try_pop_message []
       (gt_dbus_queue_method_call fixture_queue call_get_object_path) True =
       Some (Returns (False, None)
               (gt_dbus_queue_method_call fixture_queue call_get_object_path), [])"
  by (simp add: gt_dbus_queue_try_pop_message_def gt_dbus_queue_pop_message_internal_def
      fixture_queue_eq gt_dbus_queue_method_call_def g_async_queue_push_def
      gt_dbus_queue_get_n_messages_def g_async_queue_length_def)

text \<open>
  C10, as stated, has every return of the blocking \<^verbatim>\<open>gt_dbus_queue_pop_message\<close> be a
  return of \<^verbatim>\<open>TRUE\<close>, and the "saw no messages" failure of
  \<^verbatim>\<open>gt_dbus_queue_assert_pop_message_impl\<close> out of reach. On a queue that is not
  connected (here a new one) the check
  \<^verbatim>\<open>g_return_val_if_fail (self->server_thread != NULL, FALSE)\<close> fails: in a process with
  GLib's default log flags the blocking pop returns \<^verbatim>\<open>FALSE\<close> with no invocation,
  and \<^verbatim>\<open>gt_dbus_queue_assert_pop_message_impl\<close> then fails with its "saw no messages"
  message.
\<close>

theorem pop_message_unconnected_counterexample:
  "gt_dbus_queue_pop_message [] gt_dbus_queue_new True = Some (CheckFailed (False, None), [])
   \<and> seen False gt_dbus_queue_new (CheckFailed (False, None :: GDBusMethodInvocation option)) =
       Returns (False, None) gt_dbus_queue_new
   \<and> gt_dbus_queue_assert_pop_message_impl fixture_glib [] gt_dbus_queue_new
       (Some ''dbus-queue.c'') 220 (Some ''series_server_cb'')
       ''/com/example/Test'' ''com.example.Test.Manager'' ''GetObjectPath'' (Some ''(u)'') =
       Some (Aborts (AssertionMessage
               (saw_no_messages ''/com/example/Test'' ''com.example.Test.Manager''
                  ''GetObjectPath'')), [])"
  by (simp add: gt_dbus_queue_pop_message_def gt_dbus_queue_pop_message_internal_def
      gt_dbus_queue_new_def seen_def gt_dbus_queue_assert_pop_message_impl_def
      g_variant_is_object_path_def g_ascii_isalnum_def fixture_glib_def)

text \<open>
  C10, amended. Every return of the blocking \<^verbatim>\<open>gt_dbus_queue_pop_message\<close> is either
  the failed precondition check on a queue that is not connected (a CRITICAL message is
  logged and \<^verbatim>\<open>FALSE\<close> returned, no invocation stored) or, on a connected queue, a
  return of \<^verbatim>\<open>TRUE\<close> with, when a location is passed, a popped invocation in it:
  there is no timeout. On a connected queue \<^verbatim>\<open>FALSE\<close> is what
  \<^verbatim>\<open>gt_dbus_queue_try_pop_message\<close> returns. \<^verbatim>\<open>gt_dbus_queue_assert_pop_message_impl\<close>,
  which pops with the blocking function, fails with its "saw no messages" message only
  on a queue that is not connected.
\<close>

theorem pop_message_false_only_unconnected:
  "(\<forall>r rest. gt_dbus_queue_pop_message sched self out_invocation = Some (r, rest) \<longrightarrow>
      (server_thread self = None \<and> r = CheckFailed (False, None) \<and> rest = sched)
      \<or> (server_thread self \<noteq> None
         \<and> (\<exists>m self'. r = Returns (True, if out_invocation then Some m else None) self')))
   \<and> (server_thread self \<noteq> None \<longrightarrow>
        gt_dbus_queue_try_pop_message sched self out_invocation =
          Some (Returns (False, None) self, sched))
   \<and> (\<forall>rest. gt_dbus_queue_assert_pop_message_impl G sched self macro_file macro_line
          macro_function expected_object_path expected_interface_name
          expected_method_name parameters_format =
        Some (Aborts (AssertionMessage
                (saw_no_messages expected_object_path expected_interface_name
                   expected_method_name)), rest) \<longrightarrow>
        server_thread self = None)"
proof (intro conjI allI impI)
  fix r rest
  assume p: "gt_dbus_queue_pop_message sched self out_invocation = Some (r, rest)"
  show "(server_thread self = None \<and> r = CheckFailed (False, None) \<and> rest = sched)
      \<or> (server_thread self \<noteq> None
         \<and> (\<exists>m self'. r = Returns (True, if out_invocation then Some m else None) self'))"
  proof (cases "server_thread self = None")
    case True
    with p show ?thesis
      by (auto simp: gt_dbus_queue_pop_message_def gt_dbus_queue_pop_message_internal_def)
  next
    case False
    from pop_message_returns_popped [OF False p] False show ?thesis
      by blast
  qed
next
  assume "server_thread self \<noteq> None"
  then show "gt_dbus_queue_try_pop_message sched self out_invocation =
      Some (Returns (False, None) self, sched)"
    by (simp add: try_pop_message_eq)
next
  fix rest
  let ?impl = "gt_dbus_queue_assert_pop_message_impl G sched self macro_file macro_line
      macro_function expected_object_path expected_interface_name
      expected_method_name parameters_format"
  let ?no = "Aborts (AssertionMessage
      (saw_no_messages expected_object_path expected_interface_name expected_method_name))"
  assume i: "?impl = Some (?no, rest)"
  show "server_thread self = None"
  proof (rule ccontr)
    assume t: "server_thread self \<noteq> None"
    have "?impl \<noteq> Some (?no, rest)"
    proof (cases "gt_dbus_queue_pop_message sched self True")
      case None
      then show ?thesis
        by (simp add: gt_dbus_queue_assert_pop_message_impl_def)
    next
      case (Some pr)
      obtain r rest' where pr: "pr = (r, rest')" by (cases pr)
      from pop_message_returns_popped [OF t Some [unfolded pr]]
      obtain m self' where r: "r = Returns (True, Some m) self'" by auto
      show ?thesis
        using Some pr r saw_other_neq_saw_no_messages
        by (auto simp: gt_dbus_queue_assert_pop_message_impl_def
            gt_dbus_queue_match_client_message_def
            split: outcome.splits bool.splits option.splits if_splits)
    qed
    with i show False by simp
  qed
qed

theorem pop_message_false_only_unconnected_witness:
  "server_thread fixture_queue \<noteq> None
   \<and> gt_dbus_queue_pop_message [[call_get_object_path]] fixture_queue True =
       Some (Returns (True, Some call_get_object_path)
               (fixture_queue\<lparr>trace := trace fixture_queue @
                  [MainContextWakeup ClientContext, MainContextWakeup ServerContext]\<rparr>), [])
   \<and> gt_dbus_queue_try_pop_message [[call_get_object_path]] fixture_queue True =
       Some (Returns (False, None) fixture_queue, [[call_get_object_path]])
   \<and> server_thread gt_dbus_queue_new = None
   \<and> gt_dbus_queue_pop_message [[call_get_object_path]] gt_dbus_queue_new True =
       Some (CheckFailed (False, None), [[call_get_object_path]])"
proof -
  have t: "server_thread fixture_queue \<noteq> None"
    by (simp add: fixture_queue_eq)
  have u: "server_thread gt_dbus_queue_new = None"
    by (simp add: gt_dbus_queue_new_def)
  have p: "gt_dbus_queue_pop_message [[call_get_object_path]] fixture_queue True =
       Some (Returns (True, Some call_get_object_path)
               (fixture_queue\<lparr>trace := trace fixture_queue @
                  [MainContextWakeup ClientContext, MainContextWakeup ServerContext]\<rparr>), [])"
    by (simp add: gt_dbus_queue_pop_message_def gt_dbus_queue_pop_message_internal_def
        fixture_queue_eq gt_dbus_queue_method_call_def g_async_queue_push_def
        g_async_queue_try_pop_def)
  have q: "gt_dbus_queue_pop_message [[call_get_object_path]] gt_dbus_queue_new True =
       Some (CheckFailed (False, None), [[call_get_object_path]])"
    using u by (simp add: gt_dbus_queue_pop_message_def gt_dbus_queue_pop_message_internal_def)
  from pop_message_false_only_unconnected [of "[[call_get_object_path]]" fixture_queue True]
    pop_message_false_only_unconnected [of "[[call_get_object_path]]" gt_dbus_queue_new True]
    t u p q
  show ?thesis by simp
qed

subsection \<open>Asserting that nothing is pending\<close>

lemma get_n_messages_format_messages:
  "gt_dbus_queue_get_n_messages (snd (gt_dbus_queue_format_messages G self)) =
     gt_dbus_queue_get_n_messages self"
  by (simp add: format_messages_eq gt_dbus_queue_get_n_messages_def)

lemma assert_no_messages_eq:
  "gt_dbus_queue_assert_no_messages G self =
     (if gt_dbus_queue_get_n_messages self = 0 then Returns () self
      else Aborts (AssertionMessage
             (''Expected no messages, but saw '' @
              format_gsize (gt_dbus_queue_get_n_messages self) @ [CHR '':'', CHR 0x0A] @
              concat (map (gt_dbus_queue_format_message G)
                        (items (server_message_queue self))))))"
  by (simp add: gt_dbus_queue_assert_no_messages_def format_messages_eq
      gt_dbus_queue_get_n_messages_def)

text \<open>
  C5. \<^verbatim>\<open>gt_dbus_queue_assert_no_messages\<close> passes, returning with the queue object as
  it was, exactly when \<^verbatim>\<open>gt_dbus_queue_get_n_messages\<close> is 0. When the count is
  positive it aborts through \<^verbatim>\<open>g_assertion_message\<close> with a message that ends with
  the output of \<^verbatim>\<open>gt_dbus_queue_format_messages\<close>, which is the text of every pending
  message.
\<close>

theorem assert_no_messages_iff:
  "(gt_dbus_queue_assert_no_messages G self = Returns () self) =
     (gt_dbus_queue_get_n_messages self = 0)
   \<and> (0 < gt_dbus_queue_get_n_messages self \<longrightarrow>
        (\<exists>head. gt_dbus_queue_assert_no_messages G self =
           Aborts (AssertionMessage (head @ fst (gt_dbus_queue_format_messages G self)))))
   \<and> fst (gt_dbus_queue_format_messages G self) =
        concat (map (gt_dbus_queue_format_message G) (items (server_message_queue self)))"
proof (intro conjI)
  show "(gt_dbus_queue_assert_no_messages G self = Returns () self) =
     (gt_dbus_queue_get_n_messages self = 0)"
    by (simp add: assert_no_messages_eq)
next
  show "0 < gt_dbus_queue_get_n_messages self \<longrightarrow>
        (\<exists>head. gt_dbus_queue_assert_no_messages G self =
           Aborts (AssertionMessage (head @ fst (gt_dbus_queue_format_messages G self))))"
  proof (cases "gt_dbus_queue_get_n_messages self = 0")
    case True
    then show ?thesis by simp
  next
    case False
    then have "gt_dbus_queue_assert_no_messages G self =
        Aborts (AssertionMessage
          ((''Expected no messages, but saw '' @
            format_gsize (gt_dbus_queue_get_n_messages self) @ [CHR '':'', CHR 0x0A]) @
           fst (gt_dbus_queue_format_messages G self)))"
      by (simp add: assert_no_messages_eq format_messages_eq)
    then show ?thesis by blast
  qed
next
  show "fst (gt_dbus_queue_format_messages G self) =
        concat (map (gt_dbus_queue_format_message G) (items (server_message_queue self)))"
    by (simp add: format_messages_eq)
qed

lemma fixture_one_message:
  "gt_dbus_queue_get_n_messages
     (gt_dbus_queue_method_call fixture_queue call_get_all) = 1"
  by (simp add: fixture_queue_eq gt_dbus_queue_method_call_def g_async_queue_push_def
      gt_dbus_queue_get_n_messages_def g_async_queue_length_def)

theorem assert_no_messages_iff_witness:
  "gt_dbus_queue_assert_no_messages fixture_glib fixture_queue = Returns () fixture_queue
   \<and> gt_dbus_queue_get_n_messages fixture_queue = 0
   \<and> gt_dbus_queue_assert_no_messages fixture_glib
        (gt_dbus_queue_method_call fixture_queue call_get_all) =
       Aborts (AssertionMessage
         (''Expected no messages, but saw 1:'' @ [CHR 0x0A] @ ''GetAll''))
   \<and> fst (gt_dbus_queue_format_messages fixture_glib
        (gt_dbus_queue_method_call fixture_queue call_get_all)) = ''GetAll''"
proof -
  have z: "gt_dbus_queue_get_n_messages fixture_queue = 0"
    by (simp add: fixture_queue_eq gt_dbus_queue_get_n_messages_def g_async_queue_length_def)
  have one: "format_gsize (Suc 0) = ''1''"
    by code_simp
  have a: "gt_dbus_queue_assert_no_messages fixture_glib
        (gt_dbus_queue_method_call fixture_queue call_get_all) =
       Aborts (AssertionMessage
         (''Expected no messages, but saw 1:'' @ [CHR 0x0A] @ ''GetAll''))"
    by (simp add: assert_no_messages_eq fixture_one_message one)
       (simp add: fixture_queue_eq gt_dbus_queue_method_call_def g_async_queue_push_def
          gt_dbus_queue_format_message_def fixture_glib_def call_get_all_def)
  from assert_no_messages_iff [of fixture_glib fixture_queue]
    assert_no_messages_iff [of fixture_glib "gt_dbus_queue_method_call fixture_queue call_get_all"]
    z a
  show ?thesis
    by (simp add: fixture_queue_eq gt_dbus_queue_method_call_def g_async_queue_push_def
          gt_dbus_queue_format_message_def fixture_glib_def call_get_all_def)
qed

subsection \<open>Disconnecting\<close>

lemma disconnect_unown_names_eq:
  "disconnect_unown_names ids self = self\<lparr>trace := trace self @ map BusUnownName ids\<rparr>"
  by (induction ids arbitrary: self) (simp_all add: log_def)

lemma disconnect_unregister_objects_eq:
  "disconnect_unregister_objects ids self =
     self\<lparr>trace := trace self @ map ConnectionUnregisterObject ids\<rparr>"
  by (induction ids arbitrary: self) (simp_all add: log_def)

lemma under_lock_unown_names:
  "under_lock True (map BusUnownName ids @ es) = map BusUnownName ids @ under_lock True es"
  by (induction ids) simp_all

lemma under_lock_unregister_objects:
  "under_lock True (map ConnectionUnregisterObject ids @ es) =
     map ConnectionUnregisterObject ids @ under_lock True es"
  by (induction ids) simp_all

text \<open>
  C3, as stated, has \<^verbatim>\<open>gt_dbus_queue_disconnect\<close> hold the lock around the changes
  of the ID collections only, not around the calls that unown and unregister. The
  function takes the lock before its first loop and releases it after the second array
  is cleared: disconnecting the fixture that owns name 7 and exports object 9 calls
  \<^verbatim>\<open>g_bus_unown_name (7)\<close> and \<^verbatim>\<open>g_dbus_connection_unregister_object (.., 9)\<close>
  with the lock held.
\<close>

theorem disconnect_under_lock_counterexample:
  "gt_dbus_queue_disconnect fixture_glib True owner_queue False =
     Some (Returns () owner_queue_disconnected)
   \<and> under_lock False (trace owner_queue_disconnected) =
       [BusUnownName 7, ConnectionUnregisterObject 9]"
  by (simp add: gt_dbus_queue_disconnect_def owner_queue_def owner_queue_disconnected_def
      fixture_queue_eq log_def Let_def)

text \<open>
  C3, amended. On a connected queue whose message queue passes the optional emptiness
  assertion, and whose server thread exits when told to, \<^verbatim>\<open>gt_dbus_queue_disconnect\<close>
  makes exactly these calls, in this order: close the client connection; lock; unown
  every owned name, then unregister every exported object, in array order (both ID arrays
  are cleared before the unlock, so the lock is held around the unown and unregister
  calls as well); unlock; remove the debug filter; close the server connection; take the
  private bus down; store the quitting flag; wake the server context; join the server
  thread.
\<close>

theorem disconnect_order:
  assumes "server_thread self = Some thread"
    and "client_connection self = Some client"
    and "server_connection self = Some server"
    and "server_filter_id self \<noteq> 0"
    and "assert_queue_empty \<longrightarrow> gt_dbus_queue_get_n_messages self = 0"
  shows "\<exists>self'.
           gt_dbus_queue_disconnect G True self assert_queue_empty = Some (Returns () self')
         \<and> trace self' = trace self @
             [ConnectionCloseSync client, MutexLock] @
             map BusUnownName (name_ids self) @
             map ConnectionUnregisterObject (object_ids self) @
             [MutexUnlock,
              ConnectionRemoveFilter (server_filter_id self),
              ConnectionCloseSync server,
              TestDBusDown,
              AtomicSetQuitting,
              MainContextWakeup ServerContext,
              ThreadJoin thread]
         \<and> under_lock False (drop (length (trace self)) (trace self')) =
             map BusUnownName (name_ids self) @
             map ConnectionUnregisterObject (object_ids self)
         \<and> name_ids self' = [] \<and> object_ids self' = []
         \<and> client_connection self' = None \<and> server_connection self' = None
         \<and> quitting self' \<and> server_thread self' = None"
proof -
  from assms(5) have a: "(if assert_queue_empty then gt_dbus_queue_assert_no_messages G self
       else Returns () self) = Returns () self"
    by (simp add: assert_no_messages_eq)
  show ?thesis
    using assms(1-4)
    by (simp add: gt_dbus_queue_disconnect_def a log_def Let_def
        disconnect_unown_names_eq disconnect_unregister_objects_eq
        under_lock_unown_names under_lock_unregister_objects)
qed

theorem disconnect_order_witness:
  "server_thread owner_queue = Some ''GtDBusQueue server''
   \<and> client_connection owner_queue = Some \<lparr>unique_name = '':1.0''\<rparr>
   \<and> server_connection owner_queue = Some \<lparr>unique_name = '':1.1''\<rparr>
   \<and> server_filter_id owner_queue \<noteq> 0
   \<and> gt_dbus_queue_get_n_messages owner_queue = 0
   \<and> (\<exists>self'. gt_dbus_queue_disconnect fixture_glib True owner_queue True =
          Some (Returns () self')
        \<and> trace self' = trace owner_queue @
             [ConnectionCloseSync \<lparr>unique_name = '':1.0''\<rparr>, MutexLock,
              BusUnownName 7, ConnectionUnregisterObject 9,
              MutexUnlock, ConnectionRemoveFilter 1,
              ConnectionCloseSync \<lparr>unique_name = '':1.1''\<rparr>,
              TestDBusDown, AtomicSetQuitting, MainContextWakeup ServerContext,
              ThreadJoin ''GtDBusQueue server''])"
proof -
  have t: "server_thread owner_queue = Some ''GtDBusQueue server''"
    and c: "client_connection owner_queue = Some \<lparr>unique_name = '':1.0''\<rparr>"
    and s: "server_connection owner_queue = Some \<lparr>unique_name = '':1.1''\<rparr>"
    and f: "server_filter_id owner_queue \<noteq> 0"
    and n: "True \<longrightarrow> gt_dbus_queue_get_n_messages owner_queue = 0"
    by (simp_all add: owner_queue_def fixture_queue_eq gt_dbus_queue_get_n_messages_def
        g_async_queue_length_def)
  have ids: "name_ids owner_queue = [7]" "object_ids owner_queue = [9]"
    "server_filter_id owner_queue = 1"
    by (simp_all add: owner_queue_def fixture_queue_eq)
  from disconnect_order [OF t c s f n, of fixture_glib] t c s f n ids
  show ?thesis by auto
qed

subsection \<open>Releasing a name\<close>

lemma find_id_None: "(find_id ident xs i = None) = (ident \<notin> set xs)"
  by (induction xs arbitrary: i) auto

lemma find_id_Some:
  "find_id ident xs i = Some j \<Longrightarrow> i \<le> j \<and> j - i < length xs \<and> xs ! (j - i) = ident"
proof (induction xs arbitrary: i)
  case Nil
  then show ?case by simp
next
  case (Cons x xs)
  show ?case
  proof (cases "x = ident")
    case True
    with Cons.prems show ?thesis by simp
  next
    case False
    with Cons.prems have "find_id ident xs (Suc i) = Some j" by simp
    from Cons.IH [OF this] have "Suc i \<le> j" "j - Suc i < length xs" "xs ! (j - Suc i) = ident"
      by simp_all
    moreover from \<open>Suc i \<le> j\<close> have "j - i = Suc (j - Suc i)" by simp
    ultimately show ?thesis by simp
  qed
qed

lemma mset_remove_index_fast:
  assumes "j < length xs"
  shows "mset (g_array_remove_index_fast xs j) = mset xs - {#xs ! j#}"
proof -
  let ?ys = "xs[j := last xs]"
  from assms have ne: "?ys \<noteq> []" by auto
  from assms have "xs \<noteq> []" by auto
  then have l: "last ?ys = last xs"
    by (simp add: last_list_update)
  from ne have "mset ?ys = mset (butlast ?ys) + {#last ?ys#}"
    by (metis append_butlast_last_id mset.simps(1) mset.simps(2) mset_append
        add_mset_add_single union_mset_add_mset_right empty_neutral(2))
  then have b: "mset (butlast ?ys) = mset ?ys - {#last xs#}"
    by (simp add: l)
  from assms have "mset ?ys = add_mset (last xs) (mset xs - {#xs ! j#})"
    by (simp add: mset_update)
  with b assms show ?thesis
    by (simp add: g_array_remove_index_fast_def)
qed

lemma unown_name_found:
  assumes "server_thread self \<noteq> None" and "ident \<noteq> 0" and "ident \<in> set (name_ids self)"
  shows "\<exists>ids. gt_dbus_queue_unown_name self ident =
            Returns () (self\<lparr>name_ids := ids,
                             trace := trace self @ [MutexLock, MutexUnlock, BusUnownName ident]\<rparr>)
          \<and> mset ids = mset (name_ids self) - {#ident#}"
proof -
  from assms(3) obtain j where j: "find_id ident (name_ids self) 0 = Some j"
    using find_id_None [of ident "name_ids self" 0] by auto
  from find_id_Some [OF j] have "j < length (name_ids self)" "name_ids self ! j = ident"
    by simp_all
  with mset_remove_index_fast [of j "name_ids self"]
  have "mset (g_array_remove_index_fast (name_ids self) j) = mset (name_ids self) - {#ident#}"
    by simp
  with assms(1,2) j show ?thesis
    by (intro exI [of _ "g_array_remove_index_fast (name_ids self) j"])
       (simp add: gt_dbus_queue_unown_name_def log_def Let_def)
qed

lemma unown_name_not_found:
  assumes "server_thread self \<noteq> None" and "ident \<noteq> 0" and "ident \<notin> set (name_ids self)"
  shows "gt_dbus_queue_unown_name self ident = Aborts AssertNotReached"
  using assms find_id_None [of ident "name_ids self" 0]
  by (simp add: gt_dbus_queue_unown_name_def log_def Let_def)

lemma set_mset_remove_distinct:
  assumes "distinct xs" and "mset ys = mset xs - {#x#}"
  shows "set ys = set xs - {x}"
proof -
  from assms(2) have "mset ys = mset (remove1 x xs)" by simp
  then have "set ys = set (remove1 x xs)" by (rule mset_eq_setD)
  with assms(1) show ?thesis by simp
qed

text \<open>
  C6. On a connected queue, for a non-zero ID (the preconditions that
  \<^verbatim>\<open>gt_dbus_queue_unown_name\<close> checks first): an ID that is not in \<^verbatim>\<open>name_ids\<close>
  runs into \<^verbatim>\<open>g_assert_not_reached\<close>; an ID that is in it is released with
  \<^verbatim>\<open>g_bus_unown_name\<close> after the lock is dropped, and exactly one entry holding it is
  taken out of \<^verbatim>\<open>name_ids\<close>, every other entry staying (the last entry moves into the
  freed slot); nothing else of the queue changes. The IDs being distinct, as GLib hands
  them out, the ID is then untracked and a second release of it runs into
  \<^verbatim>\<open>g_assert_not_reached\<close>.
\<close>

theorem unown_name_tracked:
  assumes "server_thread self \<noteq> None" and "ident \<noteq> 0"
  shows "(ident \<notin> set (name_ids self) \<longrightarrow>
            gt_dbus_queue_unown_name self ident = Aborts AssertNotReached)
         \<and> (ident \<in> set (name_ids self) \<longrightarrow>
            (\<exists>self'. gt_dbus_queue_unown_name self ident = Returns () self'
               \<and> mset (name_ids self') = mset (name_ids self) - {#ident#}
               \<and> self' = self\<lparr>name_ids := name_ids self',
                     trace := trace self @ [MutexLock, MutexUnlock, BusUnownName ident]\<rparr>
               \<and> (distinct (name_ids self) \<longrightarrow>
                    set (name_ids self') = set (name_ids self) - {ident}
                    \<and> gt_dbus_queue_unown_name self' ident = Aborts AssertNotReached)))"
proof (intro conjI impI)
  assume "ident \<notin> set (name_ids self)"
  with assms show "gt_dbus_queue_unown_name self ident = Aborts AssertNotReached"
    by (rule unown_name_not_found)
next
  assume "ident \<in> set (name_ids self)"
  from unown_name_found [OF assms this] obtain ids where
    r: "gt_dbus_queue_unown_name self ident =
          Returns () (self\<lparr>name_ids := ids,
             trace := trace self @ [MutexLock, MutexUnlock, BusUnownName ident]\<rparr>)"
    and m: "mset ids = mset (name_ids self) - {#ident#}"
    by blast
  let ?s = "self\<lparr>name_ids := ids,
             trace := trace self @ [MutexLock, MutexUnlock, BusUnownName ident]\<rparr>"
  have again: "gt_dbus_queue_unown_name ?s ident = Aborts AssertNotReached"
    if "distinct (name_ids self)"
  proof -
    from set_mset_remove_distinct [OF that m] have "ident \<notin> set (name_ids ?s)" by simp
    moreover from assms(1) have "server_thread ?s \<noteq> None" by simp
    ultimately show ?thesis using assms(2) by (rule unown_name_not_found [rotated 2])
  qed
  have "gt_dbus_queue_unown_name self ident = Returns () ?s
      \<and> mset (name_ids ?s) = mset (name_ids self) - {#ident#}
      \<and> ?s = self\<lparr>name_ids := name_ids ?s,
            trace := trace self @ [MutexLock, MutexUnlock, BusUnownName ident]\<rparr>
      \<and> (distinct (name_ids self) \<longrightarrow>
           set (name_ids ?s) = set (name_ids self) - {ident}
           \<and> gt_dbus_queue_unown_name ?s ident = Aborts AssertNotReached)"
    using r m again set_mset_remove_distinct [OF _ m] by simp
  then show "\<exists>self'. gt_dbus_queue_unown_name self ident = Returns () self'
               \<and> mset (name_ids self') = mset (name_ids self) - {#ident#}
               \<and> self' = self\<lparr>name_ids := name_ids self',
                     trace := trace self @ [MutexLock, MutexUnlock, BusUnownName ident]\<rparr>
               \<and> (distinct (name_ids self) \<longrightarrow>
                    set (name_ids self') = set (name_ids self) - {ident}
                    \<and> gt_dbus_queue_unown_name self' ident = Aborts AssertNotReached)"
    by (rule exI)
qed

theorem unown_name_tracked_witness:
  "server_thread names_queue \<noteq> None \<and> (3::nat) \<noteq> 0 \<and> (4::nat) \<noteq> 0
   \<and> 3 \<in> set (name_ids names_queue) \<and> 4 \<notin> set (name_ids names_queue)
   \<and> distinct (name_ids names_queue)
   \<and> gt_dbus_queue_unown_name names_queue 4 = Aborts AssertNotReached
   \<and> gt_dbus_queue_unown_name names_queue 3 =
       Returns () (names_queue\<lparr>name_ids := [8, 5],
         trace := trace names_queue @ [MutexLock, MutexUnlock, BusUnownName 3]\<rparr>)
   \<and> gt_dbus_queue_unown_name
         (names_queue\<lparr>name_ids := [8, 5],
            trace := trace names_queue @ [MutexLock, MutexUnlock, BusUnownName 3]\<rparr>) 3 =
       Aborts AssertNotReached"
proof -
  have t: "server_thread names_queue \<noteq> None"
    by (simp add: names_queue_def fixture_queue_eq)
  have n3: "(3::nat) \<noteq> 0" and n4: "(4::nat) \<noteq> 0"
    by simp_all
  have ids: "name_ids names_queue = [3, 5, 8]"
    by (simp add: names_queue_def)
  have r: "gt_dbus_queue_unown_name names_queue 3 =
       Returns () (names_queue\<lparr>name_ids := [8, 5],
         trace := trace names_queue @ [MutexLock, MutexUnlock, BusUnownName 3]\<rparr>)"
    using t by (simp add: gt_dbus_queue_unown_name_def ids log_def Let_def
        g_array_remove_index_fast_def)
  from unown_name_tracked [OF t n3] unown_name_tracked [OF t n4] t ids r
  show ?thesis by simp
qed

subsection \<open>The server function\<close>

lemma set_server_func_eq:
  "gt_dbus_queue_set_server_func self (Some func) user_data =
     (if server_func self = None
      then Returns () (self\<lparr>server_func_data := user_data, server_func := Some func,
                          trace := trace self @ [MainContextWakeup ServerContext]\<rparr>)
      else Aborts (AssertFailed ''swapped''))"
  by (simp add: gt_dbus_queue_set_server_func_def g_atomic_pointer_compare_and_exchange_def
      log_def Let_def)

lemma server_iterate_waiting_func:
  assumes "server_iterate (\<lambda>s. \<not> quitting s \<and> server_func s = None) sched self =
             Some (Returns u s1, rest)"
    and "server_func s1 = Some f"
  shows "(server_func self = Some f \<and> server_func_data self = server_func_data s1)
         \<or> SetServerFunc f (server_func_data s1) \<in> set sched"
  using assms
proof (induction sched arbitrary: self)
  case Nil
  then show ?case by (simp split: if_splits)
next
  case (Cons step later)
  show ?case
  proof (cases "\<not> quitting self \<and> server_func self = None")
    case False
    with Cons.prems show ?thesis by auto
  next
    case True
    note waiting = this
    show ?thesis
    proof (cases step)
      case (SetServerFunc g d)
      let ?s = "self\<lparr>server_func_data := d, server_func := Some g,
                     trace := trace self @ [MainContextWakeup ServerContext]\<rparr>"
      from waiting SetServerFunc Cons.prems(1)
      have "server_iterate (\<lambda>s. \<not> quitting s \<and> server_func s = None) later ?s =
              Some (Returns u s1, rest)"
        by (simp add: set_server_func_eq)
      then have "s1 = ?s"
        by (cases later) simp_all
      with Cons.prems(2) SetServerFunc show ?thesis by simp
    next
      case SetQuitting
      with waiting Cons.prems(1)
      have "server_iterate (\<lambda>s. \<not> quitting s \<and> server_func s = None) later
              (self\<lparr>quitting := True\<rparr>) = Some (Returns u s1, rest)"
        by simp
      from Cons.IH [OF this Cons.prems(2)] waiting show ?thesis by simp
    next
      case (MethodCall m)
      with waiting Cons.prems(1)
      have "server_iterate (\<lambda>s. \<not> quitting s \<and> server_func s = None) later
              (gt_dbus_queue_method_call self m) = Some (Returns u s1, rest)"
        by simp
      from Cons.IH [OF this Cons.prems(2)] waiting show ?thesis
        by (simp add: gt_dbus_queue_method_call_def)
    next
      case Wakeup
      with waiting Cons.prems(1)
      have "server_iterate (\<lambda>s. \<not> quitting s \<and> server_func s = None) later self =
              Some (Returns u s1, rest)"
        by simp
      from Cons.IH [OF this Cons.prems(2)] waiting show ?thesis by simp
    qed
  qed
qed

lemma server_thread_cb_calls:
  assumes "gt_dbus_queue_server_thread_cb run sched ready self = Some (calls, r)"
  shows "calls = [] \<or>
         (\<exists>f d. calls = [(f, d)] \<and>
            ((server_func self = Some f \<and> server_func_data self = d)
             \<or> SetServerFunc f d \<in> set sched))"
proof (cases "server_iterate (\<lambda>s. \<not> quitting s \<and> server_func s = None) sched self")
  case None
  with assms show ?thesis
    by (simp add: gt_dbus_queue_server_thread_cb_def)
next
  case (Some w)
  obtain o1 rest where w: "w = (o1, rest)" by (cases w)
  show ?thesis
  proof (cases o1)
    case (Returns u s1)
    show ?thesis
    proof (cases "server_func s1")
      case None
      with assms Some w Returns show ?thesis
        by (auto simp: gt_dbus_queue_server_thread_cb_def Let_def
            split: option.splits outcome.splits)
    next
      case (Some f)
      from server_iterate_waiting_func [OF \<open>server_iterate _ sched self = Some w\<close>
          [unfolded w Returns] Some]
      have "(server_func self = Some f \<and> server_func_data self = server_func_data s1)
         \<or> SetServerFunc f (server_func_data s1) \<in> set sched" .
      moreover from assms \<open>server_iterate _ sched self = Some w\<close> w Returns Some
      have "calls = [(f, server_func_data s1)]"
        by (auto simp: gt_dbus_queue_server_thread_cb_def Let_def
            split: option.splits outcome.splits)
      ultimately show ?thesis by blast
    qed
  next
    case (CheckFailed u)
    with assms Some w show ?thesis
      by (simp add: gt_dbus_queue_server_thread_cb_def)
  next
    case (Aborts a)
    with assms Some w show ?thesis
      by (simp add: gt_dbus_queue_server_thread_cb_def)
  qed
qed

text \<open>
  C7. The first \<^verbatim>\<open>gt_dbus_queue_set_server_func\<close> (with a function, as its check
  \<^verbatim>\<open>func != NULL\<close> requires) stores the user data and the function and wakes the
  server context. With a function already stored, any further call, whatever function
  and data it passes, fails \<^verbatim>\<open>g_assert (swapped)\<close>. The thread function
  \<^verbatim>\<open>gt_dbus_queue_server_thread_cb\<close>, which runs in the thread that
  \<^verbatim>\<open>gt_dbus_queue_connect\<close> starts, calls a server function at most once, and then
  the installed one with the installed data: the pair stored before the thread started
  or the pair of a \<^verbatim>\<open>gt_dbus_queue_set_server_func\<close> made while it waited.
\<close>

theorem set_server_func_once:
  "(server_func self = None \<longrightarrow>
      gt_dbus_queue_set_server_func self (Some func) user_data =
        Returns () (self\<lparr>server_func_data := user_data, server_func := Some func,
                          trace := trace self @ [MainContextWakeup ServerContext]\<rparr>))
   \<and> (server_func self \<noteq> None \<longrightarrow>
      gt_dbus_queue_set_server_func self (Some func) user_data =
        Aborts (AssertFailed ''swapped''))
   \<and> (\<forall>self'. gt_dbus_queue_set_server_func self (Some func) user_data = Returns () self' \<longrightarrow>
        gt_dbus_queue_set_server_func self' (Some func') user_data' =
          Aborts (AssertFailed ''swapped''))
   \<and> (\<forall>calls r. gt_dbus_queue_server_thread_cb run sched ready self = Some (calls, r) \<longrightarrow>
        length calls \<le> 1
        \<and> (\<forall>f d. (f, d) \<in> set calls \<longrightarrow>
              (server_func self = Some f \<and> server_func_data self = d)
              \<or> SetServerFunc f d \<in> set sched))"
proof (intro conjI allI impI)
  fix calls r f d
  assume c: "gt_dbus_queue_server_thread_cb run sched ready self = Some (calls, r)"
  from server_thread_cb_calls [OF c] show "length calls \<le> 1" by auto
  assume "(f, d) \<in> set calls"
  with server_thread_cb_calls [OF c]
  show "(server_func self = Some f \<and> server_func_data self = d)
        \<or> SetServerFunc f d \<in> set sched"
    by auto
qed (auto simp: set_server_func_eq split: if_splits)

theorem set_server_func_once_witness:
  "server_func fixture_queue = None
   \<and> gt_dbus_queue_set_server_func fixture_queue (Some 42) 7 =
       Returns () (fixture_queue\<lparr>server_func_data := 7, server_func := Some 42,
         trace := trace fixture_queue @ [MainContextWakeup ServerContext]\<rparr>)
   \<and> gt_dbus_queue_set_server_func
         (fixture_queue\<lparr>server_func_data := 7, server_func := Some 42,
            trace := trace fixture_queue @ [MainContextWakeup ServerContext]\<rparr>)
         (Some 43) 8 = Aborts (AssertFailed ''swapped'')
   \<and> gt_dbus_queue_server_thread_cb returns_at_once
         [Wakeup, SetServerFunc 42 7, SetQuitting] [] fixture_queue =
       Some ([(42, 7)],
             Returns () (fixture_queue\<lparr>server_func_data := 7, server_func := Some 42,
               quitting := True,
               trace := trace fixture_queue @ [MainContextWakeup ServerContext]\<rparr>))"
proof -
  have n: "server_func fixture_queue = None"
    by (simp add: fixture_queue_eq)
  have q: "\<not> quitting fixture_queue"
    by (simp add: fixture_queue_eq)
  have t: "gt_dbus_queue_server_thread_cb returns_at_once
         [Wakeup, SetServerFunc 42 7, SetQuitting] [] fixture_queue =
       Some ([(42, 7)],
             Returns () (fixture_queue\<lparr>server_func_data := 7, server_func := Some 42,
               quitting := True,
               trace := trace fixture_queue @ [MainContextWakeup ServerContext]\<rparr>))"
    using n q
    by (simp add: gt_dbus_queue_server_thread_cb_def set_server_func_eq returns_at_once_def)
  from set_server_func_once [of fixture_queue 42 7 43 8 returns_at_once
      "[Wakeup, SetServerFunc 42 7, SetQuitting]" "[]"] n t
  show ?thesis by simp
qed

subsection \<open>Exporting an object\<close>

lemma object_path_needs_slash:
  "string = [] \<or> hd string \<noteq> CHR ''/'' \<Longrightarrow> \<not> g_variant_is_object_path string"
  by (auto simp: g_variant_is_object_path_def split: list.splits)

text \<open>
  C8, as stated, has \<^verbatim>\<open>gt_dbus_queue_export_object\<close> abort on a malformed object
  path instead of returning a zero ID. The path is checked by
  \<^verbatim>\<open>g_return_val_if_fail (object_path != NULL && g_variant_is_object_path (object_path), 0)\<close>:
  for the path \<^verbatim>\<open>com/example/Test\<close>, which lacks the leading slash, the call on the
  connected fixture fails that check, and in a process with GLib's default log flags it
  returns 0 and the process goes on, with the queue as it was.
\<close>

theorem export_object_malformed_counterexample:
  "\<not> g_variant_is_object_path ''com/example/Test''
   \<and> gt_dbus_queue_export_object (1, None) fixture_queue (Some ''com/example/Test'')
       (Some ''com.example.Test.Manager'') (Some None) = Some (CheckFailed (0, None))
   \<and> map_option (seen False fixture_queue)
       (gt_dbus_queue_export_object (1, None) fixture_queue (Some ''com/example/Test'')
          (Some ''com.example.Test.Manager'') (Some None)) =
       Some (Returns (0, None) fixture_queue)"
  by (simp add: gt_dbus_queue_export_object_def g_variant_is_object_path_def seen_def)

text \<open>
  C8, amended. For every object path that is not syntactically valid,
  \<^verbatim>\<open>gt_dbus_queue_export_object\<close> fails its precondition check: GLib logs a CRITICAL
  message and the call returns the ID 0 at once, with nothing registered, no error stored
  and the queue untouched. It reaches no assertion of the library. The process is
  aborted, inside the log call, only where CRITICAL messages are fatal.
\<close>

theorem export_object_malformed_path:
  assumes "\<not> g_variant_is_object_path path"
  shows "gt_dbus_queue_export_object registered self (Some path) interface_info error =
           Some (CheckFailed (0, None))
         \<and> map_option (seen False self)
             (gt_dbus_queue_export_object registered self (Some path) interface_info error) =
             Some (Returns (0, None) self)
         \<and> map_option (seen True self)
             (gt_dbus_queue_export_object registered self (Some path) interface_info error) =
             Some (Aborts FatalCritical)"
  using assms by (simp add: gt_dbus_queue_export_object_def seen_def)

theorem export_object_malformed_path_witness:
  "\<not> g_variant_is_object_path ''/com//Test''
   \<and> gt_dbus_queue_export_object (1, None) fixture_queue (Some ''/com//Test'')
       (Some ''com.example.Test.Manager'') None = Some (CheckFailed (0, None))
   \<and> map_option (seen False fixture_queue)
       (gt_dbus_queue_export_object (1, None) fixture_queue (Some ''/com//Test'')
          (Some ''com.example.Test.Manager'') None) = Some (Returns (0, None) fixture_queue)"
proof -
  have m: "\<not> g_variant_is_object_path ''/com//Test''"
    by (simp add: g_variant_is_object_path_def g_ascii_isalnum_def)
  from export_object_malformed_path [OF m, of "(1, None)" fixture_queue
      "Some ''com.example.Test.Manager''" None] m
  show ?thesis by (simp add: seen_def)
qed

text \<open>A well-formed path passes the check and the object's ID is recorded.\<close>

lemma export_object_well_formed:
  "gt_dbus_queue_export_object (1, None) fixture_queue (Some ''/com/example/Test'')
       (Some ''com.example.Test.Manager'') None =
     Some (Returns (1, None)
       (fixture_queue\<lparr>object_ids := [1],
          trace := trace fixture_queue @ [MutexLock, MutexUnlock]\<rparr>))"
  by (simp add: gt_dbus_queue_export_object_def g_variant_is_object_path_def
      g_ascii_isalnum_def fixture_queue_eq log_def Let_def)

subsection \<open>Matching\<close>

text \<open>
  C9. When its precondition checks pass (a valid expected object path, interface name
  and method name), the queue has its client connection, and the expected parameters,
  if given, parse, \<^verbatim>\<open>gt_dbus_queue_match_client_message\<close> returns, with the queue
  object as it was, \<^verbatim>\<open>TRUE\<close> exactly when the invocation's sender is the client
  connection's unique name, its object path, interface name and method name are the
  expected strings, and, if expected parameters are given, its parameters equal their
  parsed value. With \<^verbatim>\<open>NULL\<close> for the expected parameters the invocation's
  parameters have no influence on the result.
\<close>

theorem match_client_message_iff:
  assumes "g_variant_is_object_path expected_object_path"
    and "g_dbus_is_interface_name G expected_interface_name"
    and "g_dbus_is_member_name G expected_method_name"
    and "client_connection self = Some connection"
    and "\<forall>text. expected_parameters_string = Some text \<longrightarrow> g_variant_new_parsed G text \<noteq> None"
  shows "gt_dbus_queue_match_client_message G self invocation expected_object_path
           expected_interface_name expected_method_name expected_parameters_string =
         Returns
           (inv_sender invocation = unique_name connection
            \<and> inv_object_path invocation = expected_object_path
            \<and> inv_interface_name invocation = expected_interface_name
            \<and> inv_method_name invocation = expected_method_name
            \<and> (\<forall>text. expected_parameters_string = Some text \<longrightarrow>
                  g_variant_new_parsed G text = Some (inv_parameters invocation)))
           self
         \<and> gt_dbus_queue_match_client_message G self (invocation\<lparr>inv_parameters := v\<rparr>)
             expected_object_path expected_interface_name expected_method_name None =
           gt_dbus_queue_match_client_message G self invocation
             expected_object_path expected_interface_name expected_method_name None"
proof (cases expected_parameters_string)
  case None
  with assms show ?thesis
    by (simp add: gt_dbus_queue_match_client_message_def)
next
  case (Some str)
  with assms(5) obtain e where "g_variant_new_parsed G str = Some e" by auto
  with assms Some show ?thesis
    by (auto simp: gt_dbus_queue_match_client_message_def)
qed

theorem match_client_message_iff_witness:
  "g_variant_is_object_path ''/com/example/Test''
   \<and> g_dbus_is_interface_name fixture_glib ''com.example.Test.Manager''
   \<and> g_dbus_is_member_name fixture_glib ''GetObjectPath''
   \<and> client_connection fixture_queue = Some \<lparr>unique_name = '':1.0''\<rparr>
   \<and> g_variant_new_parsed fixture_glib ''(123,)'' \<noteq> None
   \<and> gt_dbus_queue_match_client_message fixture_glib fixture_queue call_get_object_path
       ''/com/example/Test'' ''com.example.Test.Manager'' ''GetObjectPath'' (Some ''(123,)'') =
       Returns True fixture_queue
   \<and> gt_dbus_queue_match_client_message fixture_glib fixture_queue
       (call_get_object_path\<lparr>inv_parameters := GVTuple [GVUInt32 5]\<rparr>)
       ''/com/example/Test'' ''com.example.Test.Manager'' ''GetObjectPath'' (Some ''(123,)'') =
       Returns False fixture_queue
   \<and> gt_dbus_queue_match_client_message fixture_glib fixture_queue
       (call_get_object_path\<lparr>inv_parameters := GVTuple [GVUInt32 5]\<rparr>)
       ''/com/example/Test'' ''com.example.Test.Manager'' ''GetObjectPath'' None =
       Returns True fixture_queue
   \<and> gt_dbus_queue_match_client_message fixture_glib fixture_queue call_get_all
       ''/com/example/Test'' ''com.example.Test.Manager'' ''GetObjectPath'' None =
       Returns False fixture_queue"
proof -
  have p: "g_variant_is_object_path ''/com/example/Test''"
    by (simp add: g_variant_is_object_path_def g_ascii_isalnum_def)
  have i: "g_dbus_is_interface_name fixture_glib ''com.example.Test.Manager''"
    and m: "g_dbus_is_member_name fixture_glib ''GetObjectPath''"
    by (simp_all add: fixture_glib_def)
  have c: "client_connection fixture_queue = Some \<lparr>unique_name = '':1.0''\<rparr>"
    by (simp add: fixture_queue_eq)
  have g: "\<forall>text. Some ''(123,)'' = Some text \<longrightarrow> g_variant_new_parsed fixture_glib text \<noteq> None"
    by (simp add: fixture_glib_def)
  have n: "\<forall>text. (None :: string option) = Some text \<longrightarrow>
      g_variant_new_parsed fixture_glib text \<noteq> None"
    by simp
  have v: "g_variant_new_parsed fixture_glib ''(123,)'' = Some (GVTuple [GVUInt32 123])"
    by (simp add: fixture_glib_def)
  from match_client_message_iff [OF p i m c g, of call_get_object_path]
    match_client_message_iff [OF p i m c g,
      of "call_get_object_path\<lparr>inv_parameters := GVTuple [GVUInt32 5]\<rparr>"]
    match_client_message_iff [OF p i m c n,
      of "call_get_object_path\<lparr>inv_parameters := GVTuple [GVUInt32 5]\<rparr>"]
    match_client_message_iff [OF p i m c n, of call_get_all]
    p i m c v
  show ?thesis
    by (simp add: call_get_object_path_def call_get_all_def)
qed

end
